theory Spec2Isabelle
  imports Complex_Main "HOL-Library.Sublist" "HOL-Library.AList"
begin

section \<open>Text utilities (src/berlin\_labels/text.py)\<close>

subsection \<open>Python string built-ins on the code points U+0000 .. U+00FF\<close>

text \<open>
  A Python \<open>str\<close> is a sequence of code points. A \<^typ>\<open>char\<close> stands for the code point
  with the same number, so a \<^typ>\<open>string\<close> is a Python string all of whose code points are
  at most U+00FF. This range holds every key of \<open>UMLAUT_MAP\<close> and is closed under
  \<open>str.lower\<close>, \<open>str.strip\<close> and \<open>str.replace\<close> with the values of that table.
  The three character classes below are the tables of CPython for that range.
\<close>

definition py_isspace :: "char \<Rightarrow> bool" where
  "py_isspace c =
     (let n = (of_char c :: nat)
      in (9 \<le> n \<and> n \<le> 13) \<or> (28 \<le> n \<and> n \<le> 32) \<or> n = 133 \<or> n = 160)"

definition py_isalnum :: "char \<Rightarrow> bool" where
  "py_isalnum c =
     (let n = (of_char c :: nat)
      in (48 \<le> n \<and> n \<le> 57) \<or> (65 \<le> n \<and> n \<le> 90) \<or> (97 \<le> n \<and> n \<le> 122)
         \<or> n = 170 \<or> n = 178 \<or> n = 179 \<or> n = 181 \<or> n = 185 \<or> n = 186
         \<or> (188 \<le> n \<and> n \<le> 190) \<or> (192 \<le> n \<and> n \<le> 214)
         \<or> (216 \<le> n \<and> n \<le> 246) \<or> (248 \<le> n \<and> n \<le> 255))"

definition py_lower_char :: "char \<Rightarrow> char" where
  "py_lower_char c =
     (let n = (of_char c :: nat)
      in if (65 \<le> n \<and> n \<le> 90) \<or> (192 \<le> n \<and> n \<le> 222 \<and> n \<noteq> 215)
         then char_of (n + 32) else c)"

definition py_lower :: "string \<Rightarrow> string" where
  "py_lower s = map py_lower_char s"

definition py_strip :: "string \<Rightarrow> string" where
  "py_strip s = rev (dropWhile py_isspace (rev (dropWhile py_isspace s)))"

text \<open>\<open>s.replace(k, v)\<close> for a pattern \<open>k\<close> of one character.\<close>

definition py_replace :: "char \<Rightarrow> string \<Rightarrow> string \<Rightarrow> string" where
  "py_replace k v s = concat (map (\<lambda>c. if c = k then v else [c]) s)"

text \<open>\<open>s.split(d)\<close> for a separator of one character: never the empty list.\<close>

fun py_split :: "char \<Rightarrow> string \<Rightarrow> string list" where
  "py_split d [] = [[]]"
| "py_split d (c # cs) =
     (if c = d then [] # py_split d cs
      else (case py_split d cs of
              [] \<Rightarrow> [[c]]
            | p # ps \<Rightarrow> (c # p) # ps))"

subsection \<open>Canonical names\<close>

text \<open>The dictionary \<open>UMLAUT_MAP\<close>, in its insertion order; every key is one character.\<close>

definition UMLAUT_MAP :: "(char \<times> string) list" where
  "UMLAUT_MAP =
     [(CHR 0xE4, ''ae''), (CHR 0xF6, ''oe''), (CHR 0xFC, ''ue''),
      (CHR 0xC4, ''ae''), (CHR 0xD6, ''oe''), (CHR 0xDC, ''ue''),
      (CHR 0xDF, ''ss'')]"

definition fold_umlauts :: "string \<Rightarrow> string" where
  "fold_umlauts s = fold (\<lambda>(k, v) acc. py_replace k v acc) UMLAUT_MAP s"

text \<open>\<open>canon_nh\<close>: the argument \<open>None\<close> is Python's \<open>None\<close>.\<close>

definition canon_nh :: "string option \<Rightarrow> string" where
  "canon_nh name =
     (case name of
        None \<Rightarrow> []
      | Some n \<Rightarrow> filter py_isalnum (fold_umlauts (py_lower (py_strip n))))"

subsection \<open>Cuisine tokens\<close>

definition national_cuisine_vocab :: "string set" where
  "national_cuisine_vocab = set
     [''italian'', ''french'', ''spanish'', ''portuguese'', ''greek'', ''turkish'',
      ''german'', ''polish'', ''russian'', ''ukrainian'', ''balkan'', ''hungarian'',
      ''romanian'', ''bulgarian'', ''georgian'',
      ''mexican'', ''argentinian'', ''peruvian'', ''brazilian'', ''colombian'',
      ''venezuelan'', ''caribbean'', ''american'', ''texmex'',
      ''lebanese'', ''israeli'', ''palestinian'', ''syrian'', ''iraqi'', ''iranian'',
      ''afghan'', ''moroccan'', ''tunisian'', ''algerian'', ''ethiopian'', ''eritrean'',
      ''egyptian'', ''southafrican'', ''nigerian'',
      ''indian'', ''pakistani'', ''bangladeshi'', ''srilankan'', ''nepali'', ''chinese'',
      ''japanese'', ''korean'', ''thai'', ''vietnamese'', ''laotian'', ''cambodian'',
      ''indonesian'', ''malaysian'', ''singaporean'', ''filipino'']"

definition EXCLUDE_TOKENS :: "string set" where
  "EXCLUDE_TOKENS = set
     [''pizza'', ''pasta'', ''sushi'', ''ramen'', ''doner'', ''d'' @ [CHR 0xF6] @ ''ner'',
      ''kebab'', ''burger'', ''bbq'', ''grill'', ''steak'', ''noodles'', ''dumpling'',
      ''dumplings'', ''sandwich'', ''bakery'', ''cafe'', ''coffee'', ''bubbletea'',
      ''boba'', ''falafel'']"

definition normalize_token :: "string \<Rightarrow> string" where
  "normalize_token tok = filter py_isalnum (fold_umlauts (py_lower (py_strip tok)))"

text \<open>
  What \<open>tokenize_cuisines\<close> can be called with: \<open>None\<close>, a float (NaN for a missing
  cell), a string, another iterable (its elements already through \<open>str\<close>), or a value
  that is not iterable.
\<close>

datatype cuisines_arg =
    PyNone
  | PyFloat
  | PyStr string
  | PyIterable "string list"
  | PyNotIterable

text \<open>The loop over \<open>parts\<close>.\<close>

fun collect_tokens :: "string list \<Rightarrow> string list" where
  "collect_tokens [] = []"
| "collect_tokens (p # ps) =
     (let t = normalize_token p
      in if t = [] \<or> t \<in> EXCLUDE_TOKENS then collect_tokens ps
         else if t \<in> national_cuisine_vocab then t # collect_tokens ps
         else collect_tokens ps)"

fun tokenize_cuisines :: "cuisines_arg \<Rightarrow> string list" where
  "tokenize_cuisines PyNone = []"
| "tokenize_cuisines PyFloat = []"
| "tokenize_cuisines (PyStr s) = collect_tokens (py_split (CHR '';'') s)"
| "tokenize_cuisines (PyIterable ps) = collect_tokens ps"
| "tokenize_cuisines PyNotIterable = []"

definition nationals_set :: "cuisines_arg \<Rightarrow> string set" where
  "nationals_set cuisines = set (tokenize_cuisines cuisines)"

subsection \<open>The canonicalisation procedure as the specification words it\<close>

text \<open>
  The specification's reference procedure: trim, replace by the fixed table (an umlauted
  vowel becomes the vowel followed by \<open>e\<close>, the sharp s becomes \<open>ss\<close>), lowercase, then drop
  every character that is not an ASCII letter or digit; the empty string for a missing name.
\<close>

definition is_ascii_alnum :: "char \<Rightarrow> bool" where
  "is_ascii_alnum c =
     (let n = (of_char c :: nat)
      in (48 \<le> n \<and> n \<le> 57) \<or> (65 \<le> n \<and> n \<le> 90) \<or> (97 \<le> n \<and> n \<le> 122))"

definition spec_fold_table :: "(char \<times> string) list" where
  "spec_fold_table =
     [(CHR 0xE4, ''ae''), (CHR 0xF6, ''oe''), (CHR 0xFC, ''ue''),
      (CHR 0xC4, ''Ae''), (CHR 0xD6, ''Oe''), (CHR 0xDC, ''Ue''),
      (CHR 0xDF, ''ss'')]"

definition spec_fold :: "string \<Rightarrow> string" where
  "spec_fold s = concat (map (\<lambda>c. case map_of spec_fold_table c of None \<Rightarrow> [c] | Some v \<Rightarrow> v) s)"

definition spec_canon :: "string option \<Rightarrow> string" where
  "spec_canon name =
     (case name of
        None \<Rightarrow> []
      | Some n \<Rightarrow> filter is_ascii_alnum (py_lower (spec_fold (py_strip n))))"

text \<open>The keys of \<open>UMLAUT_MAP\<close>.\<close>

definition umlaut_keys :: "char set" where
  "umlaut_keys = {CHR 0xE4, CHR 0xF6, CHR 0xFC, CHR 0xC4, CHR 0xD6, CHR 0xDC, CHR 0xDF}"

section \<open>Scoring primitives (src/berlin\_labels/labels\_mobility.py, labels\_venues.py)\<close>

text \<open>
  A numeric pandas series is a list of optional reals: \<open>None\<close> is NaN, the missing value.
  The reals stand for the finite floats; rounding and the IEEE infinities are outside
  this model.
\<close>

type_synonym series = "real option list"

text \<open>
  \<open>numpy.nanpercentile\<close> with its default linear interpolation: the non-missing values
  are sorted, the rank of the \<open>q\<close>-th percentile is \<open>(n - 1) * q / 100\<close>, and the result
  interpolates between the two neighbouring values. Without a value the result is NaN.
\<close>

definition non_null :: "series \<Rightarrow> real list" where
  "non_null s = map the (filter (\<lambda>x. x \<noteq> None) s)"

definition percentile_sorted :: "real list \<Rightarrow> real \<Rightarrow> real" where
  "percentile_sorted a q =
     (let n = length a;
          h = real (n - 1) * q / 100;
          i = nat \<lfloor>h\<rfloor>;
          j = min (i + 1) (n - 1)
      in a ! i + (a ! j - a ! i) * (h - real i))"

definition nanpercentile :: "series \<Rightarrow> real \<Rightarrow> real option" where
  "nanpercentile s q =
     (let a = sort (non_null s)
      in if a = [] then None else Some (percentile_sorted a q))"

text \<open>\<open>Series.clip(lower, upper)\<close> on one value.\<close>

definition clip :: "real \<Rightarrow> real \<Rightarrow> real \<Rightarrow> real" where
  "clip x lower upper = min (max x lower) upper"

text \<open>
  \<open>percentile_score\<close>, the same text in labels\_mobility.py and labels\_venues.py. With
  a NaN percentile the range and every score are NaN.
\<close>

definition percentile_score :: "series \<Rightarrow> real \<Rightarrow> real \<Rightarrow> series" where
  "percentile_score s lo hi =
     (case (nanpercentile s lo, nanpercentile s hi) of
        (Some p_lo, Some p_hi) \<Rightarrow>
          (let rng = max (p_hi - p_lo) (1 / 10 ^ 9)
           in map (map_option (\<lambda>v. clip ((v - p_lo) / rng) 0 1 * 100)) s)
      | _ \<Rightarrow> map (\<lambda>_. None) s)"

text \<open>A comparison with a NaN bound is false.\<close>

definition le_nan :: "real \<Rightarrow> real option \<Rightarrow> bool" where
  "le_nan v q = (case q of None \<Rightarrow> False | Some b \<Rightarrow> v \<le> b)"

definition ge_nan :: "real \<Rightarrow> real option \<Rightarrow> bool" where
  "ge_nan v q = (case q of None \<Rightarrow> False | Some b \<Rightarrow> v \<ge> b)"

text \<open>
  \<open>tercile_labels\<close>, the same text in labels\_mobility.py and labels\_venues.py;
  \<open>labels\<close> is the triple (high, mid, low).
\<close>

definition tercile_labels :: "series \<Rightarrow> 'l \<times> 'l \<times> 'l \<Rightarrow> 'l list" where
  "tercile_labels values labels =
     (let q1 = nanpercentile values (33333 / 1000);
          q2 = nanpercentile values (66666 / 1000);
          lab = (\<lambda>v. case v of
                   None \<Rightarrow> fst (snd labels)
                 | Some x \<Rightarrow>
                     if le_nan x q1 then snd (snd labels)
                     else if ge_nan x q2 then fst labels
                     else fst (snd labels))
      in map lab values)"

section \<open>Composite suitability (src/app.py)\<close>

text \<open>
  The merged frame \<open>g\<close> as the app reads it: its number of rows, the names of its columns,
  and each column after \<open>pd.to_numeric(..., errors="coerce")\<close>.
\<close>

record frame =
  n_rows :: nat
  col_names :: "string set"
  numeric :: "string \<Rightarrow> series"

text \<open>\<open>percentile_score\<close> of app.py.\<close>

definition app_percentile_score :: "series \<Rightarrow> real \<Rightarrow> real \<Rightarrow> series" where
  "app_percentile_score s lo hi =
     (if \<not> (\<exists>x \<in> set s. x \<noteq> None) then map (\<lambda>_. None) s
      else (case (nanpercentile s lo, nanpercentile s hi) of
              (Some p_lo, Some p_hi) \<Rightarrow>
                (let rng = max (p_hi - p_lo) (1 / 10 ^ 9)
                 in map (\<lambda>x. case x of
                            None \<Rightarrow> None
                          | Some v \<Rightarrow> Some (clip ((v - p_lo) / rng) 0 1 * 100)) s)
            | _ \<Rightarrow> map (\<lambda>_. None) s))"

definition compute_component :: "series \<Rightarrow> bool \<Rightarrow> series" where
  "compute_component s invert =
     app_percentile_score (if invert then map (map_option uminus) s else s) 10 90"

text \<open>
  The district branch's \<open>feature_map\<close> without its \<open>None\<close> entries, in the dictionary's
  order: (name, (column, invert)).
\<close>

definition dist_features :: "string set \<Rightarrow> (string \<times> string \<times> bool) list" where
  "dist_features cols =
     (if ''income_value_eur'' \<in> cols then [(''Income'', ''income_value_eur'', False)] else [])
     @ (if ''crimes_per_1000'' \<in> cols then [(''Safety'', ''crimes_per_1000'', True)] else [])
     @ (if ''unemployment_per_1000'' \<in> cols
        then [(''Unemployment'', ''unemployment_per_1000'', True)] else [])
     @ (if ''density_per_km2'' \<in> cols then [(''Density'', ''density_per_km2'', False)] else [])
     @ (if ''diversity_share'' \<in> cols then [(''Diversity'', ''diversity_share'', False)] else [])
     @ (if ''green_share'' \<in> cols then [(''Green share'', ''green_share'', False)] else [])
     @ (if ''VV_index'' \<in> cols then [(''Vibrancy'', ''VV_index'', False)]
        else if ''venues_per_km2'' \<in> cols then [(''Vibrancy'', ''venues_per_km2'', False)]
        else [])
     @ (if ''mobility_score'' \<in> cols then [(''Mobility'', ''mobility_score'', False)]
        else if ''connectivity_density'' \<in> cols
        then [(''Mobility'', ''connectivity_density'', False)]
        else [])
     @ (if ''playgrounds_per_km2'' \<in> cols
        then [(''Playgrounds density'', ''playgrounds_per_km2'', False)] else [])"

text \<open>\<open>float(weights_raw.get(name, 0))\<close>; the sliders give integers from 0 to 100.\<close>

definition weight_of :: "(string \<rightharpoonup> int) \<Rightarrow> string \<Rightarrow> real" where
  "weight_of weights_raw name = (case weights_raw name of None \<Rightarrow> 0 | Some w \<Rightarrow> real_of_int w)"

text \<open>The loop that fills \<open>comp_parts\<close>.\<close>

fun comp_parts :: "frame \<Rightarrow> (string \<rightharpoonup> int) \<Rightarrow> (string \<times> string \<times> bool) list \<Rightarrow> series list" where
  "comp_parts g weights_raw [] = []"
| "comp_parts g weights_raw ((name, col, invert) # rest) =
     (let w = weight_of weights_raw name
      in if w \<le> 0 then comp_parts g weights_raw rest
         else map (map_option (\<lambda>x. x * (w / 100))) (compute_component (numeric g col) invert)
              # comp_parts g weights_raw rest)"

text \<open>
  \<open>pd.concat(comp_parts, axis=1).sum(axis=1)\<close>: the sum of each row, a NaN counting
  as 0 (pandas skips it).
\<close>

definition nan_to_zero :: "real option \<Rightarrow> real" where
  "nan_to_zero x = (case x of None \<Rightarrow> 0 | Some v \<Rightarrow> v)"

definition row_sums :: "nat \<Rightarrow> series list \<Rightarrow> real list" where
  "row_sums n parts = map (\<lambda>i. sum_list (map (\<lambda>p. nan_to_zero (p ! i)) parts)) [0..<n]"

definition suitability :: "frame \<Rightarrow> (string \<rightharpoonup> int) \<Rightarrow> (string \<times> string \<times> bool) list \<Rightarrow> real list" where
  "suitability g weights_raw features =
     (let parts = comp_parts g weights_raw features
      in if parts \<noteq> [] then row_sums (n_rows g) parts else replicate (n_rows g) 0)"

definition dist_suitability :: "frame \<Rightarrow> (string \<rightharpoonup> int) \<Rightarrow> real list" where
  "dist_suitability g weights_raw = suitability g weights_raw (dist_features (col_names g))"

text \<open>
  The neighbourhood branch has no inverted feature and calls \<open>percentile_score\<close> on the
  column itself, which is \<open>compute_component\<close> without inversion.
\<close>

definition nei_features :: "string set \<Rightarrow> (string \<times> string \<times> bool) list" where
  "nei_features cols =
     (if ''VV_index'' \<in> cols then [(''Venues vibrancy'', ''VV_index'', False)]
      else if ''venues_per_km2'' \<in> cols then [(''Venues vibrancy'', ''venues_per_km2'', False)]
      else [])
     @ (if ''mobility_score'' \<in> cols then [(''Mobility'', ''mobility_score'', False)]
        else if ''connectivity_density'' \<in> cols
        then [(''Mobility'', ''connectivity_density'', False)]
        else [])
     @ (if ''playgrounds_per_km2'' \<in> cols
        then [(''Playgrounds density'', ''playgrounds_per_km2'', False)] else [])
     @ (if ''green_share'' \<in> cols then [(''Green share'', ''green_share'', False)] else [])"

definition nei_suitability :: "frame \<Rightarrow> (string \<rightharpoonup> int) \<Rightarrow> real list" where
  "nei_suitability g weights_raw = suitability g weights_raw (nei_features (col_names g))"

section \<open>Tables\<close>

text \<open>
  A pandas cell is missing (NaN), an integer, a float or text; a text cell stands for text
  that is not a number, as \<open>pd.read_csv\<close> leaves it. A row pairs each column name with its
  cell, in the order of the columns; a frame has its column names and its rows, under the
  default index 0, 1, \<dots>
\<close>

datatype cell = CNull | CInt int | CFloat real | CStr string

type_synonym row = "(string \<times> cell) list"

record dataframe =
  columns :: "string list"
  rows :: "row list"

definition row_get :: "row \<Rightarrow> string \<Rightarrow> cell" where
  "row_get r c = (case map_of r c of None \<Rightarrow> CNull | Some v \<Rightarrow> v)"

text \<open>
  \<open>df[c] = values\<close> on one row: the cell of an existing column is replaced, a new column
  comes last.
\<close>

definition set_cell :: "string \<Rightarrow> cell \<Rightarrow> row \<Rightarrow> row" where
  "set_cell c v r = AList.update c v r"

definition add_names :: "string list \<Rightarrow> string list \<Rightarrow> string list" where
  "add_names new cols = cols @ filter (\<lambda>c. c \<notin> set cols) new"

text \<open>The number in a cell; NaN for a missing cell and for text.\<close>

fun num :: "cell \<Rightarrow> real option" where
  "num CNull = None"
| "num (CInt i) = Some (real_of_int i)"
| "num (CFloat x) = Some x"
| "num (CStr s) = None"

definition float_cell :: "real option \<Rightarrow> cell" where
  "float_cell x = (case x of None \<Rightarrow> CNull | Some v \<Rightarrow> CFloat v)"

fun is_text :: "cell \<Rightarrow> bool" where
  "is_text (CStr s) = True"
| "is_text c = False"

fun is_int :: "cell \<Rightarrow> bool" where
  "is_int (CInt i) = True"
| "is_int c = False"

fun int_of :: "cell \<Rightarrow> int" where
  "int_of (CInt i) = i"
| "int_of c = 0"

text \<open>The exceptions that the modelled code raises, with their messages.\<close>

datatype error = ValueError string | KeyError string | TypeError string

text \<open>
  \<open>str\<close> of a cell. Python's text for a float is not a function of the real number it
  stands for, so it is the parameter \<open>float_str\<close>.
\<close>

fun digit_char :: "nat \<Rightarrow> char" where
  "digit_char n = char_of (48 + n)"

fun nat_str :: "nat \<Rightarrow> string" where
  "nat_str n = (if n < 10 then [digit_char n] else nat_str (n div 10) @ [digit_char (n mod 10)])"

definition int_str :: "int \<Rightarrow> string" where
  "int_str i = (if i < 0 then CHR ''-'' # nat_str (nat (- i)) else nat_str (nat i))"

fun py_str :: "(real \<Rightarrow> string) \<Rightarrow> cell \<Rightarrow> string" where
  "py_str float_str CNull = ''nan''"
| "py_str float_str (CInt i) = int_str i"
| "py_str float_str (CFloat x) = float_str x"
| "py_str float_str (CStr s) = s"

text \<open>\<open>series.map(canon_nh)\<close> on one cell: no cell of a frame is \<open>None\<close>.\<close>

definition canon_cell :: "(real \<Rightarrow> string) \<Rightarrow> cell \<Rightarrow> string" where
  "canon_cell float_str c = canon_nh (Some (py_str float_str c))"

text \<open>
  The text of a Python set of column names inside a message. Python prints the elements
  in an order of its own; here they come in the order of the list.
\<close>

fun join_comma :: "string list \<Rightarrow> string" where
  "join_comma [] = []"
| "join_comma [x] = x"
| "join_comma (x # y # ys) = x @ '', '' @ join_comma (y # ys)"

definition quoted :: "string \<Rightarrow> string" where
  "quoted s = [CHR 0x27] @ s @ [CHR 0x27]"

definition py_set_repr :: "string list \<Rightarrow> string" where
  "py_set_repr xs = ''{'' @ join_comma (map quoted xs) @ ''}''"

definition missing_columns :: "string list \<Rightarrow> dataframe \<Rightarrow> string list" where
  "missing_columns required df = filter (\<lambda>c. c \<notin> set (columns df)) required"

text \<open>
  Grouping: the keys of the groups, each once. pandas sorts the groups by key; the order
  of the groups is not modelled.
\<close>

definition group_keys :: "(row \<Rightarrow> 'k) \<Rightarrow> row list \<Rightarrow> 'k list" where
  "group_keys key rs = remdups (map key rs)"

definition members :: "(row \<Rightarrow> 'k) \<Rightarrow> 'k \<Rightarrow> row list \<Rightarrow> row list" where
  "members key k rs = filter (\<lambda>r. key r = k) rs"

text \<open>
  The sum of a group in one column: NaN counts as 0; the result is an integer when the
  whole column holds integers, a float otherwise.
\<close>

definition sum_real :: "cell list \<Rightarrow> real" where
  "sum_real cs = sum_list (map (\<lambda>c. nan_to_zero (num c)) cs)"

definition group_sum :: "cell list \<Rightarrow> cell list \<Rightarrow> cell" where
  "group_sum whole grp =
     (if \<forall>c \<in> set whole. is_int c then CInt (sum_list (map int_of grp))
      else CFloat (sum_real grp))"

definition col_cells :: "row list \<Rightarrow> string \<Rightarrow> cell list" where
  "col_cells rs c = map (\<lambda>r. row_get r c) rs"

text \<open>\<open>df[cols]\<close>: a \<open>KeyError\<close> for a column that the frame lacks.\<close>

definition select_columns :: "string list \<Rightarrow> dataframe \<Rightarrow> error + dataframe" where
  "select_columns cols df =
     (case missing_columns cols df of
        [] \<Rightarrow> Inr \<lparr> columns = cols, rows = map (\<lambda>r. map (\<lambda>c. (c, row_get r c)) cols) (rows df) \<rparr>
      | m # ms \<Rightarrow> Inl (KeyError (py_set_repr (m # ms))))"


text \<open>
  \<open>left.merge(right, on=keys, how="left")\<close>. A column of both frames that is not a key
  gets the suffix \<open>_x\<close> on the left and \<open>_y\<close> on the right. Each left row is joined with
  every right row of the same key, in order; without one it is kept once, with missing
  cells in the right columns. A key that a frame lacks is a \<open>KeyError\<close>.
\<close>

definition keys_match :: "string list \<Rightarrow> row \<Rightarrow> row \<Rightarrow> bool" where
  "keys_match keys l r = (map (row_get r) keys = map (row_get l) keys)"

definition overlap_columns :: "string list \<Rightarrow> dataframe \<Rightarrow> dataframe \<Rightarrow> string list" where
  "overlap_columns keys left right =
     filter (\<lambda>c. c \<in> set (columns right) \<and> c \<notin> set keys) (columns left)"

definition suffixed :: "string list \<Rightarrow> string \<Rightarrow> string \<Rightarrow> string" where
  "suffixed ov sfx c = (if c \<in> set ov then c @ sfx else c)"

definition right_columns :: "string list \<Rightarrow> dataframe \<Rightarrow> string list" where
  "right_columns keys right = filter (\<lambda>c. c \<notin> set keys) (columns right)"

definition left_part :: "string list \<Rightarrow> row \<Rightarrow> row" where
  "left_part ov l = map (\<lambda>(c, v). (suffixed ov ''_x'' c, v)) l"

definition right_part :: "string list \<Rightarrow> string list \<Rightarrow> row \<Rightarrow> row" where
  "right_part ov rcols r = map (\<lambda>c. (suffixed ov ''_y'' c, row_get r c)) rcols"

definition null_part :: "string list \<Rightarrow> string list \<Rightarrow> row" where
  "null_part ov rcols = map (\<lambda>c. (suffixed ov ''_y'' c, CNull)) rcols"

definition join_row :: "string list \<Rightarrow> string list \<Rightarrow> string list \<Rightarrow> row list \<Rightarrow> row \<Rightarrow> row list" where
  "join_row keys ov rcols rrows l =
     (case filter (keys_match keys l) rrows of
        [] \<Rightarrow> [left_part ov l @ null_part ov rcols]
      | m # ms \<Rightarrow> map (\<lambda>r. left_part ov l @ right_part ov rcols r) (m # ms))"

definition merge_left :: "string list \<Rightarrow> dataframe \<Rightarrow> dataframe \<Rightarrow> error + dataframe" where
  "merge_left keys left right =
     (case missing_columns keys left @ missing_columns keys right of
        m # ms \<Rightarrow> Inl (KeyError m)
      | [] \<Rightarrow>
          (let ov = overlap_columns keys left right;
               rcols = right_columns keys right
           in Inr \<lparr> columns = map (suffixed ov ''_x'') (columns left)
                                @ map (suffixed ov ''_y'') rcols,
                    rows = concat (map (join_row keys ov rcols (rows right)) (rows left)) \<rparr>))"


text \<open>A frame whose rows carry exactly its columns, and a frame with one row for a key.\<close>

definition wf_frame :: "dataframe \<Rightarrow> bool" where
  "wf_frame df = (\<forall>r \<in> set (rows df). map fst r = columns df)"


text \<open>
  A quotient of two float cells. The quotient by 0 is an IEEE infinity, or NaN for 0 / 0,
  which the reals do not have: it is given as missing here, and every statement about a
  quotient is made for a denominator that is not 0.
\<close>

definition fdiv :: "real option \<Rightarrow> real option \<Rightarrow> real option" where
  "fdiv a b =
     (case (a, b) of
        (Some x, Some y) \<Rightarrow> if y = 0 then None else Some (x / y)
      | _ \<Rightarrow> None)"

section \<open>Theme builders\<close>

subsection \<open>Parks (src/berlin\_labels/labels\_parks.py)\<close>

text \<open>
  \<open>compute_parks_labels\<close>: the check of the required columns, then the green area in
  square km summed by (district\_id, neighbourhood key), null keys kept. \<open>astype(float)\<close> raises
  on text.
\<close>

definition compute_parks_labels :: "(real \<Rightarrow> string) \<Rightarrow> dataframe \<Rightarrow> error + dataframe" where
  "compute_parks_labels float_str df_parks =
     (let missing = missing_columns [''district_id'', ''neighborhood'', ''size_sqm''] df_parks
      in if missing \<noteq> [] then Inl (ValueError (''df_parks missing columns: '' @ py_set_repr missing))
         else if \<exists>r \<in> set (rows df_parks). is_text (row_get r ''size_sqm'')
         then Inl (ValueError ''could not convert string to float'')
         else
           (let parks = map (\<lambda>r. set_cell ''green_area_km2''
                                        (float_cell (map_option (\<lambda>x. x / 10 ^ 6)
                                                       (num (row_get r ''size_sqm''))))
                                        (set_cell ''neighborhood_canon''
                                           (CStr (canon_cell float_str (row_get r ''neighborhood''))) r))
                          (rows df_parks);
                key = (\<lambda>r. (row_get r ''district_id'', row_get r ''neighborhood_canon''))
            in Inr \<lparr> columns = [''district_id'', ''neighborhood_canon'', ''green_area_km2''],
                     rows = map (\<lambda>(d, k).
                              [(''district_id'', d), (''neighborhood_canon'', k),
                               (''green_area_km2'',
                                 CFloat (sum_real (col_cells (members key (d, k) parks)
                                                    ''green_area_km2'')))])
                            (group_keys key parks) \<rparr>))"

subsection \<open>Playgrounds (src/berlin\_labels/labels\_playgrounds.py)\<close>

text \<open>
  \<open>compute_playgrounds_labels\<close>: the check, then the number of records whose type holds
  "spielplatz" in any case, by (district\_id, neighbourhood key); \<open>groupby\<close> drops the
  records with a missing district\_id.
\<close>

definition is_playground :: "(real \<Rightarrow> string) \<Rightarrow> row \<Rightarrow> bool" where
  "is_playground float_str r =
     sublist ''spielplatz'' (py_lower (py_str float_str (row_get r ''green_area_type'')))"

definition compute_playgrounds_labels :: "(real \<Rightarrow> string) \<Rightarrow> dataframe \<Rightarrow> error + dataframe" where
  "compute_playgrounds_labels float_str df_playgrounds =
     (let missing = missing_columns [''district_id'', ''neighborhood'', ''green_area_type'']
                      df_playgrounds
      in if missing \<noteq> []
         then Inl (ValueError (''df_playgrounds missing columns: '' @ py_set_repr missing))
         else
           (let df = map (\<lambda>r. set_cell ''neighborhood_canon''
                                     (CStr (canon_cell float_str (row_get r ''neighborhood''))) r)
                       (rows df_playgrounds);
                play = filter (is_playground float_str) df;
                key = (\<lambda>r. (row_get r ''district_id'', row_get r ''neighborhood_canon''));
                kept = filter (\<lambda>r. row_get r ''district_id'' \<noteq> CNull) play
            in Inr \<lparr> columns = [''district_id'', ''neighborhood_canon'', ''n_playgrounds''],
                     rows = map (\<lambda>(d, k).
                              [(''district_id'', d), (''neighborhood_canon'', k),
                               (''n_playgrounds'', CInt (int (length (members key (d, k) kept))))])
                            (group_keys key kept) \<rparr>))"

subsection \<open>Venues (src/berlin\_labels/labels\_venues.py)\<close>

text \<open>The argument that \<open>nationals_set\<close> gets from a cell of the cuisine column.\<close>

fun cuisine_arg :: "cell \<Rightarrow> cuisines_arg" where
  "cuisine_arg CNull = PyFloat"
| "cuisine_arg (CFloat x) = PyFloat"
| "cuisine_arg (CInt i) = PyNotIterable"
| "cuisine_arg (CStr s) = PyStr s"

definition venues_columns :: "string list" where
  "venues_columns = [''district_id'', ''neighborhood_canon'', ''n_venues'', ''n_cuisine_types'']"

definition compute_venues_features :: "(real \<Rightarrow> string) \<Rightarrow> dataframe \<Rightarrow> error + dataframe" where
  "compute_venues_features float_str df_venues =
     (let missing = missing_columns [''district_id'', ''neighborhood'', ''cuisine''] df_venues
      in if missing \<noteq> [] then Inl (ValueError (''df_venues missing columns: '' @ py_set_repr missing))
         else
           (let df = map (\<lambda>r. set_cell ''neighborhood_canon''
                                     (CStr (canon_cell float_str (row_get r ''neighborhood''))) r)
                       (rows df_venues);
                key = (\<lambda>r. (row_get r ''district_id'', row_get r ''neighborhood_canon''))
            in Inr \<lparr> columns = venues_columns,
                     rows = map (\<lambda>(d, k).
                              [(''district_id'', d), (''neighborhood_canon'', k),
                               (''n_venues'', CInt (int (length (members key (d, k) df)))),
                               (''n_cuisine_types'',
                                 CInt (int (card (\<Union>r \<in> set (members key (d, k) df).
                                                    nationals_set (cuisine_arg (row_get r ''cuisine''))))))])
                            (group_keys key df) \<rparr>))"

section \<open>District aggregation (src/berlin\_labels/aggregate.py)\<close>

text \<open>\<open>Series.clip(lower=0.20)\<close> on one cell.\<close>

definition clip_lower_cell :: "cell \<Rightarrow> cell" where
  "clip_lower_cell c = float_cell (map_option (\<lambda>x. max x (2 / 10)) (num c))"

definition numeric_col :: "dataframe \<Rightarrow> string \<Rightarrow> bool" where
  "numeric_col df c = (\<forall>r \<in> set (rows df). \<not> is_text (row_get r c))"

text \<open>
  \<open>_sum_area\<close>: the area columns summed by the district columns that the frame has
  (\<open>numeric_only\<close> leaves a column of text out); without \<open>area_eff_km2\<close> it is the floor of
  the summed \<open>area_km2\<close>. \<open>groupby\<close> with no key raises.
\<close>

definition sum_area :: "dataframe \<Rightarrow> error + dataframe" where
  "sum_area df_nei =
     (let by = filter (\<lambda>c. c \<in> set (columns df_nei)) [''district_id'', ''district''];
          vals = filter (\<lambda>c. c \<in> set (columns df_nei) \<and> numeric_col df_nei c)
                   [''area_km2'', ''area_eff_km2''];
          key = (\<lambda>r. map (row_get r) by)
      in if by = [] then Inl (ValueError ''No group keys passed!'')
         else
           (let grp = map (\<lambda>k. zip by k
                            @ map (\<lambda>c. (c, group_sum (col_cells (rows df_nei) c)
                                               (col_cells (members key k (rows df_nei)) c))) vals)
                        (group_keys key (rows df_nei))
            in if ''area_eff_km2'' \<notin> set vals \<and> ''area_km2'' \<in> set vals
               then Inr \<lparr> columns = by @ vals @ [''area_eff_km2''],
                          rows = map (\<lambda>r. set_cell ''area_eff_km2''
                                                 (clip_lower_cell (row_get r ''area_km2'')) r) grp \<rparr>
               else Inr \<lparr> columns = by @ vals, rows = grp \<rparr>))"

text \<open>The weighted density of one row: (0.7 u + 0.3 b) / area\_eff.\<close>

definition connectivity_density :: "row \<Rightarrow> real option" where
  "connectivity_density r =
     fdiv (case (num (row_get r ''ubahn_stations''), num (row_get r ''bus_tram_stops'')) of
             (Some u, Some b) \<Rightarrow> Some (7 / 10 * u + 3 / 10 * b)
           | _ \<Rightarrow> None)
          (num (row_get r ''area_eff_km2''))"

definition mobility_labels :: "string \<times> string \<times> string" where
  "mobility_labels = (''well-connected'', ''moderate'', ''remote'')"

text \<open>The three columns that both mobility functions append: density, score and label.\<close>

definition add_mobility_columns :: "dataframe \<Rightarrow> dataframe" where
  "add_mobility_columns out =
     (let density = map connectivity_density (rows out);
          score = percentile_score density 10 90;
          label = tercile_labels score mobility_labels
      in \<lparr> columns = add_names [''connectivity_density'', ''mobility_score'', ''mobility_label'']
                       (columns out),
           rows = map (\<lambda>(r, d, s, l).
                         set_cell ''mobility_label'' (CStr l)
                           (set_cell ''mobility_score'' (float_cell s)
                              (set_cell ''connectivity_density'' (float_cell d) r)))
                    (zip (rows out) (zip density (zip score label))) \<rparr>)"

definition aggregate_mobility_to_district :: "dataframe \<Rightarrow> dataframe \<Rightarrow> error + dataframe" where
  "aggregate_mobility_to_district nei_labels gdf_nei =
     (if \<not> set [''district_id'', ''neighborhood_id'', ''ubahn_stations'', ''bus_tram_stops'']
            \<subseteq> set (columns nei_labels)
      then Inl (ValueError ''nei_labels missing required mobility columns'')
      else if ''total_stops'' \<notin> set (columns nei_labels)
      then Inl (KeyError (''Columns not found: '' @ quoted ''total_stops''))
      else
        (let key = (\<lambda>r. row_get r ''district_id'');
             counts = \<lparr> columns = [''district_id'', ''ubahn_stations'', ''bus_tram_stops'',
                                   ''total_stops''],
                        rows = map (\<lambda>d. (''district_id'', d)
                                 # map (\<lambda>c. (c, group_sum (col_cells (rows nei_labels) c)
                                                    (col_cells (members key d (rows nei_labels)) c)))
                                     [''ubahn_stations'', ''bus_tram_stops'', ''total_stops''])
                               (group_keys key (rows nei_labels)) \<rparr>
         in case sum_area gdf_nei of
              Inl e \<Rightarrow> Inl e
            | Inr area \<Rightarrow>
                (case merge_left [''district_id''] counts area of
                   Inl e \<Rightarrow> Inl e
                 | Inr out \<Rightarrow>
                     if ''area_eff_km2'' \<notin> set (columns out) then Inl (KeyError ''area_eff_km2'')
                     else Inr (add_mobility_columns out))))"


text \<open>
  The sum of one column over the neighbourhoods of a district, as the specification words
  the district-summed inputs.
\<close>

definition district_sum :: "dataframe \<Rightarrow> cell \<Rightarrow> string \<Rightarrow> real" where
  "district_sum df d c =
     sum_real (col_cells (members (\<lambda>r. row_get r ''district_id'') d (rows df)) c)"
section \<open>Geometry (src/berlin\_labels/geo.py)\<close>

text \<open>
  A \<open>GeoDataFrame\<close> is a frame with the geometry of each row. The geometries, the test
  \<open>within\<close> of a point in a polygon, and the area of a polygon in square km (in the
  projection EPSG:25833) belong to geopandas: the types \<open>'p\<close> of points and \<open>'g\<close> of polygons
  and the two functions are parameters, and a change of coordinate reference system
  changes nothing here.
\<close>

record 'g geoframe = dataframe +
  geometry :: "'g list"

text \<open>
  \<open>compute_area_km2\<close>: a missing or absent \<open>area_km2\<close> is computed from the geometry, then
  \<open>area_eff_km2\<close> is the area with the floor 0.20. \<open>clip\<close> raises on text.
\<close>

definition compute_area_km2 :: "('g \<Rightarrow> real) \<Rightarrow> 'g geoframe \<Rightarrow> error + 'g geoframe" where
  "compute_area_km2 area_of gdf =
     (let filled = map (\<lambda>(r, g). if row_get r ''area_km2'' = CNull
                                  then set_cell ''area_km2'' (CFloat (area_of g)) r else r)
                     (zip (rows gdf) (geometry gdf))
      in if \<exists>r \<in> set filled. is_text (row_get r ''area_km2'')
         then Inl (TypeError ''clip: text in area_km2'')
         else Inr (gdf \<lparr> columns := add_names [''area_km2'', ''area_eff_km2''] (columns gdf),
                         rows := map (\<lambda>r. set_cell ''area_eff_km2''
                                            (clip_lower_cell (row_get r ''area_km2'')) r) filled \<rparr>))"

definition infer_lat_lon_columns :: "string list \<Rightarrow> (string \<times> string) option" where
  "infer_lat_lon_columns cols =
     (let cand_lats = filter (\<lambda>c. py_lower c \<in> {''lat'', ''latitude'', ''y''}) cols;
          cand_lons = filter (\<lambda>c. py_lower c \<in> {''lon'', ''lng'', ''long'', ''longitude'', ''x''}) cols
      in case (cand_lats, cand_lons) of
           (lat # _, lon # _) \<Rightarrow> Some (lat, lon)
         | _ \<Rightarrow> None)"

text \<open>
  A table of points: its column names, whether it carries a geometry already, and the
  point of each row (its geometry, or the point of its longitude and latitude).
\<close>

record 'p point_table =
  pt_columns :: "string list"
  has_geometry :: bool
  points :: "'p list"

definition to_points_gdf :: "'p point_table \<Rightarrow> error + 'p list" where
  "to_points_gdf df =
     (if has_geometry df then Inr (points df)
      else (case infer_lat_lon_columns (pt_columns df) of
              None \<Rightarrow> Inl (ValueError
                ''Cannot infer lat/lon columns; expected 'lat'/'lon' or geometry column'')
            | Some ll \<Rightarrow> Inr (points df)))"

text \<open>
  \<open>points_within\<close>: the inner spatial join, one pair for each point and each polygon that
  the point is within; the polygon is given by its index.
\<close>

definition points_within :: "('p \<Rightarrow> 'g \<Rightarrow> bool) \<Rightarrow> (nat \<times> 'g) list \<Rightarrow> 'p list \<Rightarrow> ('p \<times> nat) list" where
  "points_within inside polys pts =
     concat (map (\<lambda>p. map (\<lambda>(i, g). (p, i)) (filter (\<lambda>(i, g). inside p g) polys)) pts)"

section \<open>Mobility (src/berlin\_labels/labels\_mobility.py)\<close>

text \<open>\<open>groupby(poly_index).size()\<close>: a count for each index that occurs.\<close>

definition group_size :: "nat list \<Rightarrow> nat \<Rightarrow> nat option" where
  "group_size idx i = (if i \<in> set idx then Some (length (filter (\<lambda>j. j = i) idx)) else None)"

text \<open>The left merge of the counts on the polygons, then \<open>fillna(0).astype(int)\<close>.\<close>

definition fillna0_int :: "nat option \<Rightarrow> cell" where
  "fillna0_int c = (case c of None \<Rightarrow> CInt 0 | Some n \<Rightarrow> CInt (int n))"

definition mobility_columns :: "string list" where
  "mobility_columns =
     [''district_id'', ''neighborhood_id'', ''neighborhood'', ''neighborhood_canon'',
      ''ubahn_stations'', ''bus_tram_stops'', ''total_stops'', ''connectivity_density'',
      ''mobility_score'', ''mobility_label'']"

text \<open>
  \<open>compute_mobility_labels\<close>. The column that \<open>_poly_idx_col\<close> finds in the joined points
  holds the index of the polygon.
\<close>

definition compute_mobility_labels ::
  "('p \<Rightarrow> 'g \<Rightarrow> bool) \<Rightarrow> ('g \<Rightarrow> real) \<Rightarrow> (real \<Rightarrow> string) \<Rightarrow>
   'g geoframe \<Rightarrow> 'p point_table \<Rightarrow> 'p point_table \<Rightarrow> error + dataframe" where
  "compute_mobility_labels inside area_of float_str gdf_nei df_ubahn df_bus_tram =
     (if \<not> set [''district_id'', ''neighborhood_id'', ''neighborhood''] \<subseteq> set (columns gdf_nei)
      then Inl (ValueError ''gdf_nei must include district_id, neighborhood_id, neighborhood'')
      else
        (case compute_area_km2 area_of gdf_nei of
           Inl e \<Rightarrow> Inl e
         | Inr gdf \<Rightarrow>
        (case to_points_gdf df_ubahn of
           Inl e \<Rightarrow> Inl e
         | Inr g_ubahn \<Rightarrow>
        (case to_points_gdf df_bus_tram of
           Inl e \<Rightarrow> Inl e
         | Inr g_bus \<Rightarrow>
             (let polys = zip [0 ..< length (rows gdf)] (geometry gdf);
                  cnt_ubahn = group_size (map snd (points_within inside polys g_ubahn));
                  cnt_bus = group_size (map snd (points_within inside polys g_bus));
                  out = map (\<lambda>(i, r).
                          (let u = fillna0_int (cnt_ubahn i); b = fillna0_int (cnt_bus i)
                           in [(''district_id'', row_get r ''district_id''),
                               (''neighborhood_id'', row_get r ''neighborhood_id''),
                               (''neighborhood'', row_get r ''neighborhood''),
                               (''area_eff_km2'', row_get r ''area_eff_km2''),
                               (''ubahn_stations'', u),
                               (''bus_tram_stops'', b),
                               (''total_stops'', CInt (int_of u + int_of b))]))
                        (zip [0 ..< length (rows gdf)] (rows gdf));
                  scored = add_mobility_columns
                             \<lparr> columns = [''district_id'', ''neighborhood_id'', ''neighborhood'',
                                           ''area_eff_km2'', ''ubahn_stations'', ''bus_tram_stops'',
                                           ''total_stops''],
                               rows = out \<rparr>;
                  named = scored \<lparr> columns := add_names [''neighborhood_canon''] (columns scored),
                                   rows := map (\<lambda>r. set_cell ''neighborhood_canon''
                                                  (CStr (canon_cell float_str (row_get r ''neighborhood''))) r)
                                             (rows scored) \<rparr>
              in select_columns mobility_columns named)))))"

section \<open>The merged tables (src/berlin\_labels/pipeline.py, lines 121 to 160)\<close>












section \<open>A small run\<close>

text \<open>
  Two neighbourhoods of one district, as the tables stand after the builders: Mitte with
  two U-Bahn stations, one bus stop, a park and two venues, and Wedding with nothing.
  Points and polygons are numbered, and a point lies within the polygon of its number.
\<close>

definition ex_gdf :: dataframe where
  "ex_gdf =
     \<lparr> columns = [''district_id'', ''district'', ''neighborhood_id'', ''neighborhood'',
                  ''neighborhood_canon'', ''area_km2'', ''area_eff_km2''],
       rows = [[(''district_id'', CInt 1), (''district'', CStr ''Mitte''),
                (''neighborhood_id'', CInt 11), (''neighborhood'', CStr ''Mitte''),
                (''neighborhood_canon'', CStr ''mitte''), (''area_km2'', CFloat 1),
                (''area_eff_km2'', CFloat 1)],
               [(''district_id'', CInt 1), (''district'', CStr ''Mitte''),
                (''neighborhood_id'', CInt 12), (''neighborhood'', CStr ''Wedding''),
                (''neighborhood_canon'', CStr ''wedding''), (''area_km2'', CFloat (1 / 10)),
                (''area_eff_km2'', CFloat (2 / 10))]] \<rparr>"

definition ex_geo :: "nat geoframe" where
  "ex_geo = \<lparr> columns = columns ex_gdf, rows = rows ex_gdf, geometry = [0, 1] \<rparr>"

definition ex_ubahn :: "nat point_table" where
  "ex_ubahn = \<lparr> pt_columns = [''name'', ''Lat'', ''lon''], has_geometry = False, points = [0, 0, 7] \<rparr>"

definition ex_bus :: "nat point_table" where
  "ex_bus = \<lparr> pt_columns = [''y'', ''X''], has_geometry = False, points = [0] \<rparr>"

definition ex_mob :: dataframe where
  "ex_mob =
     \<lparr> columns = mobility_columns,
       rows = [[(''district_id'', CInt 1), (''neighborhood_id'', CInt 11),
                (''neighborhood'', CStr ''Mitte''), (''neighborhood_canon'', CStr ''mitte''),
                (''ubahn_stations'', CInt 2), (''bus_tram_stops'', CInt 1),
                (''total_stops'', CInt 3), (''connectivity_density'', CFloat (17 / 10)),
                (''mobility_score'', CFloat 100), (''mobility_label'', CStr ''well-connected'')],
               [(''district_id'', CInt 1), (''neighborhood_id'', CInt 12),
                (''neighborhood'', CStr ''Wedding''), (''neighborhood_canon'', CStr ''wedding''),
                (''ubahn_stations'', CInt 0), (''bus_tram_stops'', CInt 0),
                (''total_stops'', CInt 0), (''connectivity_density'', CFloat 0),
                (''mobility_score'', CFloat 0), (''mobility_label'', CStr ''remote'')]] \<rparr>"







definition ex_mobility :: dataframe where
  "ex_mobility =
     projr (compute_mobility_labels (\<lambda>p g. p = g) (\<lambda>g. 1) (\<lambda>x. ''1.0'') ex_geo ex_ubahn ex_bus)"

definition ex_districts :: dataframe where
  "ex_districts = projr (aggregate_mobility_to_district ex_mob ex_gdf)"

section \<open>Properties of the text utilities\<close>

lemma py_lower_char_idem: "py_lower_char (py_lower_char c) = py_lower_char c"
  by (auto simp: py_lower_char_def Let_def)

lemma py_isalnum_not_space: "py_isalnum c \<Longrightarrow> \<not> py_isspace c"
  by (auto simp: py_isalnum_def py_isspace_def Let_def)

lemma py_strip_id: "\<forall>c\<in>set s. \<not> py_isspace c \<Longrightarrow> py_strip s = s"
proof -
  assume a: "\<forall>c\<in>set s. \<not> py_isspace c"
  have d: "dropWhile py_isspace t = t" if "\<forall>c\<in>set t. \<not> py_isspace c" for t
    using that by (cases t) auto
  from a have "dropWhile py_isspace s = s" by (rule d)
  moreover from a have "dropWhile py_isspace (rev s) = rev s" by (intro d) simp
  ultimately show ?thesis by (simp add: py_strip_def)
qed

lemma set_py_replace:
  "set (py_replace k v s) = (set s - {k}) \<union> (if k \<in> set s then set v else {})"
  by (induction s) (auto simp: py_replace_def)

lemma py_replace_id: "k \<notin> set s \<Longrightarrow> py_replace k v s = s"
  by (induction s) (auto simp: py_replace_def)


lemma fold_umlauts_unfold:
  "fold_umlauts s =
     py_replace (CHR 0xDF) ''ss'' (py_replace (CHR 0xDC) ''ue'' (py_replace (CHR 0xD6) ''oe''
       (py_replace (CHR 0xC4) ''ae'' (py_replace (CHR 0xFC) ''ue'' (py_replace (CHR 0xF6) ''oe''
         (py_replace (CHR 0xE4) ''ae'' s))))))"
  by (simp add: fold_umlauts_def UMLAUT_MAP_def)

lemma fold_umlauts_id: "set s \<inter> umlaut_keys = {} \<Longrightarrow> fold_umlauts s = s"
  by (simp add: fold_umlauts_unfold umlaut_keys_def py_replace_id)



lemma in_set_py_replace:
  "c \<in> set (py_replace k v s) \<longleftrightarrow> (c \<noteq> k \<and> c \<in> set s) \<or> (k \<in> set s \<and> c \<in> set v)"
  by (auto simp: set_py_replace)

lemma py_replace_subset:
  "set v \<subseteq> A \<Longrightarrow> set s \<subseteq> S \<union> A \<Longrightarrow> set (py_replace k v s) \<subseteq> S \<union> A"
  by (auto simp: set_py_replace split: if_splits)

lemma set_fold_umlauts_sub: "set (fold_umlauts s) \<subseteq> set s \<union> set ''aeous''"
  unfolding fold_umlauts_unfold
  by (intro py_replace_subset) auto

lemma fold_umlauts_no_keys: "k \<in> umlaut_keys \<Longrightarrow> k \<notin> set (fold_umlauts s)"
  unfolding fold_umlauts_unfold umlaut_keys_def
  by (elim insertE emptyE) (simp_all add: in_set_py_replace)


lemma canon_key_chars:
  assumes "c \<in> set (filter py_isalnum (fold_umlauts (py_lower (py_strip n))))"
  shows "py_isalnum c" and "c \<notin> umlaut_keys" and "py_lower_char c = c"
proof -
  from assms show "py_isalnum c" by simp
  from assms have m: "c \<in> set (fold_umlauts (py_lower (py_strip n)))" by simp
  then show "c \<notin> umlaut_keys" using fold_umlauts_no_keys by blast
  from m set_fold_umlauts_sub have "c \<in> set (py_lower (py_strip n)) \<or> c \<in> set ''aeous''"
    by blast
  then show "py_lower_char c = c"
  proof
    assume "c \<in> set (py_lower (py_strip n))"
    then obtain b where "c = py_lower_char b" by (auto simp: py_lower_def)
    then show ?thesis by (simp add: py_lower_char_idem)
  next
    assume "c \<in> set ''aeous''"
    then have "c = CHR ''a'' \<or> c = CHR ''e'' \<or> c = CHR ''o'' \<or> c = CHR ''u'' \<or> c = CHR ''s''"
      by simp
    then show ?thesis by (elim disjE) (simp_all add: py_lower_char_def)
  qed
qed

lemma canon_body_fix:
  assumes y: "y = filter py_isalnum (fold_umlauts (py_lower (py_strip n)))"
  shows "filter py_isalnum (fold_umlauts (py_lower (py_strip y))) = y"
proof -
  have al: "\<forall>c\<in>set y. py_isalnum c" using y by simp
  then have "py_strip y = y" by (intro py_strip_id) (blast dest: py_isalnum_not_space)
  moreover have "py_lower y = y"
    unfolding py_lower_def using canon_key_chars(3) y by (intro map_idI) blast
  moreover have "fold_umlauts y = y"
    using canon_key_chars(2) y by (intro fold_umlauts_id) blast
  ultimately show ?thesis using al by simp
qed

text \<open>
  Claim C9. Canonicalisation is idempotent: canonicalising a canonical key gives the same
  key, for every name and for the missing name.
\<close>

theorem canon_nh_idempotent: "canon_nh (Some (canon_nh x)) = canon_nh x"
proof (cases x)
  case None
  then show ?thesis
    by (simp add: canon_nh_def py_strip_def py_lower_def fold_umlauts_unfold py_replace_def)
next
  case (Some n)
  then show ?thesis using canon_body_fix [OF refl, of n] by (simp add: canon_nh_def)
qed



lemma collect_tokens_sub: "set (collect_tokens ps) \<subseteq> national_cuisine_vocab - EXCLUDE_TOKENS"
  by (induction ps) (auto simp: Let_def)

lemma tokenize_cuisines_sub: "set (tokenize_cuisines x) \<subseteq> national_cuisine_vocab - EXCLUDE_TOKENS"
  using collect_tokens_sub by (cases x) auto

text \<open>
  Claim C7. The string "Italian; Pizza; Japanese; Doener (with o-umlaut); Vietnamese" tokenizes to italian,
  japanese, vietnamese, and for every argument each token returned by \<open>tokenize_cuisines\<close>
  and \<open>nationals_set\<close> is in the national-cuisine vocabulary and none is an excluded dish
  word.
\<close>

theorem tokenize_cuisines_nationals_only:
  "tokenize_cuisines (PyStr (''Italian; Pizza; Japanese; D'' @ [CHR 0xF6] @ ''ner; Vietnamese''))
     = [''italian'', ''japanese'', ''vietnamese'']
   \<and> nationals_set (PyStr (''Italian; Pizza; Japanese; D'' @ [CHR 0xF6] @ ''ner; Vietnamese''))
     = {''italian'', ''japanese'', ''vietnamese''}
   \<and> set (tokenize_cuisines x) \<subseteq> national_cuisine_vocab
   \<and> set (tokenize_cuisines x) \<inter> EXCLUDE_TOKENS = {}
   \<and> nationals_set x \<subseteq> national_cuisine_vocab
   \<and> nationals_set x \<inter> EXCLUDE_TOKENS = {}"
proof -
  have a: "tokenize_cuisines (PyStr (''Italian; Pizza; Japanese; D'' @ [CHR 0xF6] @ ''ner; Vietnamese''))
     = [''italian'', ''japanese'', ''vietnamese'']"
    by code_simp
  have b: "nationals_set (PyStr (''Italian; Pizza; Japanese; D'' @ [CHR 0xF6] @ ''ner; Vietnamese''))
     = {''italian'', ''japanese'', ''vietnamese''}"
    unfolding nationals_set_def a by simp
  have c: "set (tokenize_cuisines x) \<subseteq> national_cuisine_vocab - EXCLUDE_TOKENS"
    by (rule tokenize_cuisines_sub)
  from c have d: "set (tokenize_cuisines x) \<subseteq> national_cuisine_vocab"
    and e: "set (tokenize_cuisines x) \<inter> EXCLUDE_TOKENS = {}" by blast+
  from a b d e show ?thesis unfolding nationals_set_def by blast
qed

theorem tokenize_cuisines_nationals_only_witness:
  "set (tokenize_cuisines (PyStr (''PIZZA;  T'' @ [CHR 0xDC] @ ''rkish ; thai!;;Sushi''))) \<subseteq> national_cuisine_vocab"
  using tokenize_cuisines_nationals_only [of "PyStr (''PIZZA;  T'' @ [CHR 0xDC] @ ''rkish ; thai!;;Sushi'')"]
  by blast


lemma py_replace_append: "py_replace k v (xs @ ys) = py_replace k v xs @ py_replace k v ys"
  by (simp add: py_replace_def)

lemma fold_umlauts_append: "fold_umlauts (xs @ ys) = fold_umlauts xs @ fold_umlauts ys"
  by (simp add: fold_umlauts_unfold py_replace_append)

lemma fold_umlauts_Cons: "fold_umlauts (c # s) = fold_umlauts [c] @ fold_umlauts s"
  using fold_umlauts_append [of "[c]" s] by simp

lemma spec_fold_Cons: "spec_fold (c # s) = spec_fold [c] @ spec_fold s"
  by (simp add: spec_fold_def)

lemma ascii_not_key: "(of_char c :: nat) < 128 \<Longrightarrow> c \<notin> umlaut_keys"
  by (auto simp: umlaut_keys_def)

lemma ascii_lower_ascii: "(of_char c :: nat) < 128 \<Longrightarrow> (of_char (py_lower_char c) :: nat) < 128"
  by (auto simp: py_lower_char_def Let_def)

lemma ascii_alnum_eq: "(of_char c :: nat) < 128 \<Longrightarrow> py_isalnum c = is_ascii_alnum c"
  by (auto simp: py_isalnum_def is_ascii_alnum_def Let_def)

lemma spec_fold_not_key: "c \<notin> umlaut_keys \<Longrightarrow> spec_fold [c] = [c]"
  by (simp add: spec_fold_def spec_fold_table_def umlaut_keys_def)

lemma char_step_ascii:
  assumes "(of_char c :: nat) < 128"
  shows "filter py_isalnum (fold_umlauts (py_lower [c])) = filter is_ascii_alnum (py_lower (spec_fold [c]))"
proof -
  have "fold_umlauts [py_lower_char c] = [py_lower_char c]"
    using ascii_not_key [OF ascii_lower_ascii [OF assms]] by (intro fold_umlauts_id) simp
  moreover have "spec_fold [c] = [c]" using ascii_not_key [OF assms] by (rule spec_fold_not_key)
  ultimately show ?thesis
    using ascii_alnum_eq [OF ascii_lower_ascii [OF assms]] by (simp add: py_lower_def)
qed

lemma char_step_key:
  assumes "c \<in> umlaut_keys"
  shows "filter py_isalnum (fold_umlauts (py_lower [c])) = filter is_ascii_alnum (py_lower (spec_fold [c]))"
  using assms unfolding umlaut_keys_def
  by (elim insertE emptyE) (simp_all, code_simp+)



lemma py_lower_Cons: "py_lower (c # s) = py_lower [c] @ py_lower s"
  by (simp add: py_lower_def)

lemma py_lower_append: "py_lower (xs @ ys) = py_lower xs @ py_lower ys"
  by (simp add: py_lower_def)

lemma canon_eq_spec_on:
  "\<forall>c\<in>set s. (of_char c :: nat) < 128 \<or> c \<in> umlaut_keys \<Longrightarrow>
   filter py_isalnum (fold_umlauts (py_lower s)) = filter is_ascii_alnum (py_lower (spec_fold s))"
proof (induction s)
  case Nil
  then show ?case by (simp add: py_lower_def spec_fold_def fold_umlauts_unfold py_replace_def)
next
  case (Cons c s)
  then have c: "(of_char c :: nat) < 128 \<or> c \<in> umlaut_keys" by simp
  have step: "filter py_isalnum (fold_umlauts (py_lower [c])) = filter is_ascii_alnum (py_lower (spec_fold [c]))"
    using c char_step_ascii char_step_key by blast
  have "filter py_isalnum (fold_umlauts (py_lower (c # s)))
        = filter py_isalnum (fold_umlauts (py_lower [c])) @ filter py_isalnum (fold_umlauts (py_lower s))"
    by (subst py_lower_Cons) (simp only: fold_umlauts_append filter_append)
  also have "\<dots> = filter is_ascii_alnum (py_lower (spec_fold [c])) @ filter is_ascii_alnum (py_lower (spec_fold s))"
    using step Cons by simp
  also have "\<dots> = filter is_ascii_alnum (py_lower (spec_fold (c # s)))"
    by (subst (2) spec_fold_Cons) (simp only: py_lower_append filter_append)
  finally show ?case .
qed

lemma set_py_strip: "set (py_strip n) \<subseteq> set n"
proof -
  have "set (py_strip n) \<subseteq> set (dropWhile py_isspace n)"
    unfolding py_strip_def using set_dropWhileD [of _ py_isspace "rev (dropWhile py_isspace n)"] by auto
  also have "\<dots> \<subseteq> set n" using set_dropWhileD by fastforce
  finally show ?thesis .
qed

text \<open>
  Claim C4, as amended. \<open>canon_nh\<close> gives the empty string for \<open>None\<close>; otherwise it
  trims, lowercases, replaces the characters of \<open>UMLAUT_MAP\<close> and keeps the characters that
  \<open>str.isalnum\<close> accepts, so every character of a key is alphanumeric, not necessarily
  ASCII. When every character of the name is ASCII or a key of the table, the result is the
  one of the specification's procedure and all its characters are ASCII letters or digits.
\<close>

theorem canon_nh_alnum_key:
  "canon_nh None = []
   \<and> canon_nh (Some n) = filter py_isalnum (fold_umlauts (py_lower (py_strip n)))
   \<and> (\<forall>c \<in> set (canon_nh x). py_isalnum c)
   \<and> ((\<forall>c \<in> set n. (of_char c :: nat) < 128 \<or> c \<in> umlaut_keys) \<longrightarrow>
        canon_nh (Some n) = spec_canon (Some n)
        \<and> (\<forall>c \<in> set (canon_nh (Some n)). is_ascii_alnum c))"
proof -
  have a: "canon_nh None = []" by (simp add: canon_nh_def)
  have b: "canon_nh (Some n) = filter py_isalnum (fold_umlauts (py_lower (py_strip n)))"
    by (simp add: canon_nh_def)
  have c: "\<forall>c \<in> set (canon_nh x). py_isalnum c"
    by (cases x) (simp_all add: canon_nh_def)
  have d: "canon_nh (Some n) = spec_canon (Some n) \<and> (\<forall>c \<in> set (canon_nh (Some n)). is_ascii_alnum c)"
    if h: "\<forall>c \<in> set n. (of_char c :: nat) < 128 \<or> c \<in> umlaut_keys"
  proof -
    from h set_py_strip have "\<forall>c \<in> set (py_strip n). (of_char c :: nat) < 128 \<or> c \<in> umlaut_keys"
      by blast
    then have e: "canon_nh (Some n) = spec_canon (Some n)"
      using canon_eq_spec_on by (simp add: canon_nh_def spec_canon_def)
    moreover have "\<forall>c \<in> set (spec_canon (Some n)). is_ascii_alnum c"
      by (simp add: spec_canon_def)
    ultimately show ?thesis by simp
  qed
  from a b c d show ?thesis by blast
qed

theorem canon_nh_alnum_key_witness:
  "canon_nh (Some (''K'' @ [CHR 0xF6] @ ''llnische-Heide '')) = ''koellnischeheide''
   \<and> spec_canon (Some (''K'' @ [CHR 0xF6] @ ''llnische-Heide '')) = ''koellnischeheide''"
proof -
  have h: "\<forall>c \<in> set (''K'' @ [CHR 0xF6] @ ''llnische-Heide ''). (of_char c :: nat) < 128 \<or> c \<in> umlaut_keys"
    by code_simp
  have v: "canon_nh (Some (''K'' @ [CHR 0xF6] @ ''llnische-Heide '')) = ''koellnischeheide''"
    by code_simp
  from canon_nh_alnum_key [of "''K'' @ [CHR 0xF6] @ ''llnische-Heide ''" None] h
  have "canon_nh (Some (''K'' @ [CHR 0xF6] @ ''llnische-Heide ''))
        = spec_canon (Some (''K'' @ [CHR 0xF6] @ ''llnische-Heide ''))"
    by blast
  with v show ?thesis by simp
qed

text \<open>
  The claim as stated fails at the name of the one character U+00E9 (e with acute): \<open>str.isalnum\<close> accepts it, so the
  key keeps a character that is not ASCII, where the specification's procedure gives the
  empty string.
\<close>

theorem canon_nh_ascii_counterexample:
  "canon_nh (Some [CHR 0xE9]) = [CHR 0xE9]
   \<and> spec_canon (Some [CHR 0xE9]) = []
   \<and> \<not> is_ascii_alnum (CHR 0xE9)"
  by code_simp

theorem canon_nh_idempotent_witness:
  "canon_nh (Some (canon_nh (Some (''Stra'' @ [CHR 0xDF] @ ''e 123'')))) = ''strasse123''"
proof -
  have e: "canon_nh (Some (''Stra'' @ [CHR 0xDF] @ ''e 123'')) = ''strasse123''"
    by code_simp
  show ?thesis by (rule trans [OF canon_nh_idempotent e])
qed


section \<open>Properties of the scoring primitives\<close>


lemma sort_Nil_iff: "sort xs = [] \<longleftrightarrow> xs = []"
  by (metis length_sort length_0_conv)

lemma non_null_Nil_iff: "non_null s = [] \<longleftrightarrow> (\<forall>x\<in>set s. x = None)"
  by (auto simp: non_null_def filter_empty_conv)

lemma nanpercentile_None_iff: "nanpercentile s q = None \<longleftrightarrow> (\<forall>x\<in>set s. x = None)"
  by (simp add: nanpercentile_def Let_def sort_Nil_iff non_null_Nil_iff [symmetric])

lemma nanpercentile_Some:
  "x \<in> set s \<Longrightarrow> x \<noteq> None \<Longrightarrow> nanpercentile s q = Some (percentile_sorted (sort (non_null s)) q)"
  using non_null_Nil_iff [of s] by (auto simp: nanpercentile_def Let_def sort_Nil_iff)

lemma clip_bounds: "0 \<le> clip x 0 1 * 100 \<and> clip x 0 1 * 100 \<le> 100"
  by (simp add: clip_def min_def max_def)

lemma length_percentile_score: "length (percentile_score s lo hi) = length s"
  by (simp add: percentile_score_def Let_def split: option.splits)

lemma percentile_score_all_null:
  "\<forall>x\<in>set s. x = None \<Longrightarrow> percentile_score s lo hi = map (\<lambda>_. None) s"
  using nanpercentile_None_iff [of s lo] by (simp add: percentile_score_def)

lemma percentile_score_nth:
  assumes "i < length s" and "\<exists>x\<in>set s. x \<noteq> None"
  shows "percentile_score s lo hi ! i =
         map_option (\<lambda>v. clip ((v - percentile_sorted (sort (non_null s)) lo)
                                / max (percentile_sorted (sort (non_null s)) hi
                                       - percentile_sorted (sort (non_null s)) lo) (1 / 10 ^ 9)) 0 1 * 100)
           (s ! i)"
proof -
  from assms(2) obtain x where x: "x \<in> set s" "x \<noteq> None" by blast
  show ?thesis
    using assms(1) by (simp add: percentile_score_def nanpercentile_Some [OF x] Let_def)
qed

text \<open>
  Claim C2. For every series, \<open>percentile_score\<close> keeps the length, is null exactly at the
  null entries (so an all-null series gives all-null scores), and every other score is
  \<open>clip ((v - p_lo) / max (p_hi - p_lo) 1e-9) 0 1 * 100\<close>, where \<open>p_lo\<close> and \<open>p_hi\<close> are the 10th and
  90th percentiles of the non-null values; hence every non-null score lies between 0 and
  100.
\<close>

theorem percentile_score_range:
  "length (percentile_score s 10 90) = length s
   \<and> (\<forall>i < length s. percentile_score s 10 90 ! i = None \<longleftrightarrow> s ! i = None)
   \<and> ((\<forall>x \<in> set s. x = None) \<longrightarrow> (\<forall>y \<in> set (percentile_score s 10 90). y = None))
   \<and> (\<forall>i < length s. \<forall>v. s ! i = Some v \<longrightarrow>
         percentile_score s 10 90 ! i =
           Some (clip ((v - percentile_sorted (sort (non_null s)) 10)
                       / max (percentile_sorted (sort (non_null s)) 90
                              - percentile_sorted (sort (non_null s)) 10) (1 / 10 ^ 9)) 0 1 * 100))
   \<and> (\<forall>i < length s. \<forall>y. percentile_score s 10 90 ! i = Some y \<longrightarrow> 0 \<le> y \<and> y \<le> 100)"
proof -
  have nth: "percentile_score s 10 90 ! i =
         map_option (\<lambda>v. clip ((v - percentile_sorted (sort (non_null s)) 10)
                                / max (percentile_sorted (sort (non_null s)) 90
                                       - percentile_sorted (sort (non_null s)) 10) (1 / 10 ^ 9)) 0 1 * 100)
           (s ! i)" if "i < length s" "s ! i \<noteq> None" for i
  proof -
    from that have "\<exists>x\<in>set s. x \<noteq> None" using nth_mem by blast
    with that(1) show ?thesis by (rule percentile_score_nth)
  qed
  have null: "percentile_score s 10 90 ! i = None" if "i < length s" "s ! i = None" for i
  proof (cases "\<forall>x\<in>set s. x = None")
    case True
    then show ?thesis using that by (simp add: percentile_score_all_null)
  next
    case False
    then have "\<exists>x\<in>set s. x \<noteq> None" by blast
    from percentile_score_nth [OF that(1) this] that(2) show ?thesis by simp
  qed
  have a: "\<forall>i < length s. percentile_score s 10 90 ! i = None \<longleftrightarrow> s ! i = None"
    using nth null by (metis option.map_disc_iff)
  have b: "(\<forall>x \<in> set s. x = None) \<longrightarrow> (\<forall>y \<in> set (percentile_score s 10 90). y = None)"
    by (auto simp: percentile_score_all_null)
  have c: "\<forall>i < length s. \<forall>v. s ! i = Some v \<longrightarrow>
         percentile_score s 10 90 ! i =
           Some (clip ((v - percentile_sorted (sort (non_null s)) 10)
                       / max (percentile_sorted (sort (non_null s)) 90
                              - percentile_sorted (sort (non_null s)) 10) (1 / 10 ^ 9)) 0 1 * 100)"
    using nth by simp
  have d: "\<forall>i < length s. \<forall>y. percentile_score s 10 90 ! i = Some y \<longrightarrow> 0 \<le> y \<and> y \<le> 100"
  proof (intro allI impI)
    fix i y assume i: "i < length s" and y: "percentile_score s 10 90 ! i = Some y"
    with null obtain v where v: "s ! i = Some v" by (cases "s ! i") auto
    with c i y clip_bounds show "0 \<le> y \<and> y \<le> 100" by auto
  qed
  from length_percentile_score a b c d show ?thesis by blast
qed

theorem percentile_score_range_witness:
  "percentile_score [Some 0, Some (17 / 10), None] 10 90 ! 2 = None
   \<and> percentile_score [Some 0, Some (17 / 10), None] 10 90 ! 1 = Some 100"
proof -
  note t = percentile_score_range [of "[Some 0, Some (17 / 10), None]"]
  from t have "percentile_score [Some 0, Some (17 / 10), None] 10 90 ! 2 = None" by simp
  moreover from t have "percentile_score [Some 0, Some (17 / 10), None] 10 90 ! 1 =
           Some (clip ((17 / 10 - percentile_sorted (sort (non_null [Some 0, Some (17 / 10), None])) 10)
                       / max (percentile_sorted (sort (non_null [Some 0, Some (17 / 10), None])) 90
                              - percentile_sorted (sort (non_null [Some 0, Some (17 / 10), None])) 10) (1 / 10 ^ 9)) 0 1 * 100)"
    by simp
  moreover have "clip ((17 / 10 - percentile_sorted (sort (non_null [Some 0, Some (17 / 10), None])) 10)
                       / max (percentile_sorted (sort (non_null [Some 0, Some (17 / 10), None])) 90
                              - percentile_sorted (sort (non_null [Some 0, Some (17 / 10), None])) 10) (1 / 10 ^ 9)) 0 1 * 100 = (100::real)"
    by code_simp
  ultimately show ?thesis by simp
qed



lemma percentile_sorted_between:
  assumes s: "sorted a" and ne: "a \<noteq> []" and q: "0 \<le> q" "q \<le> 100"
  defines "h \<equiv> real (length a - 1) * q / 100"
  shows "a ! nat \<lfloor>h\<rfloor> \<le> percentile_sorted a q"
    and "percentile_sorted a q \<le> a ! min (nat \<lfloor>h\<rfloor> + 1) (length a - 1)"
    and "nat \<lfloor>h\<rfloor> \<le> length a - 1"
proof -
  let ?n = "length a" let ?i = "nat \<lfloor>h\<rfloor>" let ?j = "min (?i + 1) (?n - 1)"
  have h0: "0 \<le> h" using q by (simp add: h_def)
  have hn: "h \<le> real (?n - 1)"
  proof -
    have "real (?n - 1) * q \<le> real (?n - 1) * 100" using q by (intro mult_left_mono) simp_all
    then show ?thesis by (simp add: h_def)
  qed
  have il: "real ?i \<le> h" using h0 by (simp add: of_nat_nat)
  have iu: "h < real ?i + 1" using h0 by (simp add: of_nat_nat)
  have "real ?i \<le> real (?n - 1)" using il hn by linarith
  then show in1: "?i \<le> ?n - 1" by simp
  have jn: "?j < ?n" using ne by (cases a) (auto simp: min_def)
  have ij: "?i \<le> ?j" using in1 by simp
  have le: "a ! ?i \<le> a ! ?j" using s ij jn by (rule sorted_nth_mono)
  have f0: "0 \<le> h - real ?i" and f1: "h - real ?i \<le> 1" using il iu by linarith+
  have v: "percentile_sorted a q = a ! ?i + (a ! ?j - a ! ?i) * (h - real ?i)"
    by (simp add: percentile_sorted_def Let_def h_def)
  have p0: "0 \<le> (a ! ?j - a ! ?i) * (h - real ?i)" using le f0 by simp
  have "(a ! ?j - a ! ?i) * (h - real ?i) \<le> (a ! ?j - a ! ?i) * 1"
    using le f1 by (intro mult_left_mono) simp_all
  then have p1: "(a ! ?j - a ! ?i) * (h - real ?i) \<le> a ! ?j - a ! ?i" by simp
  show "a ! ?i \<le> percentile_sorted a q" using v p0 by linarith
  show "percentile_sorted a q \<le> a ! ?j" using v p1 by linarith
qed

lemma percentile_sorted_mono:
  assumes s: "sorted a" and ne: "a \<noteq> []" and q: "0 \<le> q" "q \<le> q'" "q' \<le> 100"
  shows "percentile_sorted a q \<le> percentile_sorted a q'"
proof -
  let ?n = "length a"
  define h where "h = real (?n - 1) * q / 100"
  define h' where "h' = real (?n - 1) * q' / 100"
  let ?i = "nat \<lfloor>h\<rfloor>" let ?i' = "nat \<lfloor>h'\<rfloor>"
  let ?j = "min (?i + 1) (?n - 1)"
  have q': "0 \<le> q'" "q \<le> 100" using q by linarith+
  have hh: "h \<le> h'"
  proof -
    have "real (?n - 1) * q \<le> real (?n - 1) * q'" using q by (intro mult_left_mono) simp_all
    then show ?thesis by (simp add: h_def h'_def divide_right_mono)
  qed
  have ii: "?i \<le> ?i'" using hh by (intro nat_mono floor_mono)
  note b = percentile_sorted_between [OF s ne q(1) q'(2), folded h_def]
  note b' = percentile_sorted_between [OF s ne q'(1) q(3), folded h'_def]
  show ?thesis
  proof (cases "?i = ?i'")
    case True
    have v: "percentile_sorted a q = a ! ?i + (a ! ?j - a ! ?i) * (h - real ?i)"
      by (simp add: percentile_sorted_def Let_def h_def)
    have v': "percentile_sorted a q' = a ! ?i + (a ! ?j - a ! ?i) * (h' - real ?i)"
      using True by (simp add: percentile_sorted_def Let_def h'_def)
    have jn: "?j < ?n" using ne by (cases a) (auto simp: min_def)
    have "a ! ?i \<le> a ! ?j" using s _ jn by (rule sorted_nth_mono) (use b(3) in simp)
    then have "(a ! ?j - a ! ?i) * (h - real ?i) \<le> (a ! ?j - a ! ?i) * (h' - real ?i)"
      using hh by (intro mult_left_mono) simp_all
    with v v' show ?thesis by linarith
  next
    case False
    with ii have lt: "?i + 1 \<le> ?i'" by simp
    with b'(3) have "?j = ?i + 1" by simp
    moreover have "?i' < ?n" using b'(3) ne by (cases a) auto
    ultimately have "a ! ?j \<le> a ! ?i'" using s lt by (simp add: sorted_nth_mono)
    with b(2) b'(1) show ?thesis by linarith
  qed
qed

lemma tercile_quantiles_le:
  "non_null vs \<noteq> [] \<Longrightarrow>
   percentile_sorted (sort (non_null vs)) (33333 / 1000) \<le> percentile_sorted (sort (non_null vs)) (66666 / 1000)"
  by (intro percentile_sorted_mono) (simp_all add: sort_Nil_iff)

lemma length_tercile_labels: "length (tercile_labels vs labels) = length vs"
  by (simp add: tercile_labels_def Let_def)

lemma tercile_labels_nth:
  "i < length vs \<Longrightarrow>
   tercile_labels vs (h, m, l) ! i =
     (case vs ! i of
        None \<Rightarrow> m
      | Some x \<Rightarrow>
          if le_nan x (nanpercentile vs (33333 / 1000)) then l
          else if ge_nan x (nanpercentile vs (66666 / 1000)) then h
          else m)"
  by (simp add: tercile_labels_def Let_def split: option.splits)

text \<open>
  Claim C3, as amended. With \<open>q1\<close> and \<open>q2\<close> the 33.333rd and 66.666th percentiles of the
  non-null values (so \<open>q1 \<le> q2\<close>), \<open>tercile_labels\<close> gives the mid label to a null value, the
  low label to a value at most \<open>q1\<close>, the high label to a value that is at least \<open>q2\<close> and
  greater than \<open>q1\<close>, and the mid label to a value strictly between them. The test against
  \<open>q1\<close> comes first: a value equal to \<open>q2\<close> gets the high label only when \<open>q1 < q2\<close>.
\<close>

theorem tercile_labels_first_match:
  "length (tercile_labels vs (h, m, l)) = length vs
   \<and> (\<forall>i < length vs.
        (vs ! i = None \<longrightarrow> tercile_labels vs (h, m, l) ! i = m)
        \<and> (\<forall>v. vs ! i = Some v \<longrightarrow>
             percentile_sorted (sort (non_null vs)) (33333 / 1000)
               \<le> percentile_sorted (sort (non_null vs)) (66666 / 1000)
             \<and> (v \<le> percentile_sorted (sort (non_null vs)) (33333 / 1000) \<longrightarrow>
                  tercile_labels vs (h, m, l) ! i = l)
             \<and> (percentile_sorted (sort (non_null vs)) (33333 / 1000) < v
                \<and> percentile_sorted (sort (non_null vs)) (66666 / 1000) \<le> v \<longrightarrow>
                  tercile_labels vs (h, m, l) ! i = h)
             \<and> (percentile_sorted (sort (non_null vs)) (33333 / 1000) < v
                \<and> v < percentile_sorted (sort (non_null vs)) (66666 / 1000) \<longrightarrow>
                  tercile_labels vs (h, m, l) ! i = m)))"
proof -
  have "(vs ! i = None \<longrightarrow> tercile_labels vs (h, m, l) ! i = m)
        \<and> (\<forall>v. vs ! i = Some v \<longrightarrow>
             percentile_sorted (sort (non_null vs)) (33333 / 1000)
               \<le> percentile_sorted (sort (non_null vs)) (66666 / 1000)
             \<and> (v \<le> percentile_sorted (sort (non_null vs)) (33333 / 1000) \<longrightarrow>
                  tercile_labels vs (h, m, l) ! i = l)
             \<and> (percentile_sorted (sort (non_null vs)) (33333 / 1000) < v
                \<and> percentile_sorted (sort (non_null vs)) (66666 / 1000) \<le> v \<longrightarrow>
                  tercile_labels vs (h, m, l) ! i = h)
             \<and> (percentile_sorted (sort (non_null vs)) (33333 / 1000) < v
                \<and> v < percentile_sorted (sort (non_null vs)) (66666 / 1000) \<longrightarrow>
                  tercile_labels vs (h, m, l) ! i = m))" if i: "i < length vs" for i
  proof (cases "vs ! i")
    case None
    then show ?thesis using i by (simp add: tercile_labels_nth)
  next
    case (Some v)
    then have mem: "Some v \<in> set vs" using i nth_mem by metis
    then have ne: "non_null vs \<noteq> []" by (auto simp: non_null_Nil_iff)
    have q: "nanpercentile vs q = Some (percentile_sorted (sort (non_null vs)) q)" for q
      using nanpercentile_Some [OF mem] by simp
    show ?thesis
      using i Some tercile_quantiles_le [OF ne]
      by (auto simp: tercile_labels_nth q le_nan_def ge_nan_def)
  qed
  with length_tercile_labels show ?thesis by blast
qed

theorem tercile_labels_first_match_witness:
  "tercile_labels [Some 1, Some 2, Some 3, None, Some 4] (''high'', ''mid'', ''low'') ! 0 = ''low''
   \<and> tercile_labels [Some 1, Some 2, Some 3, None, Some 4] (''high'', ''mid'', ''low'') ! 3 = ''mid''"
proof -
  note t = tercile_labels_first_match [of "[Some 1, Some 2, Some 3, None, Some 4]" "''high''" "''mid''" "''low''"]
  have q: "(1::real) \<le> percentile_sorted (sort (non_null [Some 1, Some 2, Some 3, None, Some 4])) (33333 / 1000)"
    by code_simp
  from t have "tercile_labels [Some 1, Some 2, Some 3, None, Some 4] (''high'', ''mid'', ''low'') ! 3 = ''mid''"
    by simp
  moreover from t q have "tercile_labels [Some 1, Some 2, Some 3, None, Some 4] (''high'', ''mid'', ''low'') ! 0 = ''low''"
    by simp
  ultimately show ?thesis by simp
qed

text \<open>
  The claim as stated fails on the constant series 1, 1, 1: both percentiles are 1, every
  value equals \<open>q2\<close>, and every value gets the low label.
\<close>

theorem tercile_labels_tie_counterexample:
  "tercile_labels [Some 1, Some 1, Some 1] (''high'', ''mid'', ''low'') = [''low'', ''low'', ''low'']
   \<and> nanpercentile [Some 1, Some 1, Some 1] (66666 / 1000) = Some 1
   \<and> nanpercentile [Some 1, Some 1, Some 1] (6667 / 100) = Some 1"
  by code_simp


section \<open>Properties of the composite suitability\<close>


lemma length_app_percentile_score: "length (app_percentile_score s lo hi) = length s"
  by (simp add: app_percentile_score_def Let_def split: option.splits)

lemma length_compute_component: "length (compute_component s invert) = length s"
  by (simp add: compute_component_def length_app_percentile_score)

lemma nan_to_zero_scale: "nan_to_zero (map_option (\<lambda>x. x * k) y) = nan_to_zero y * k"
  by (cases y) (simp_all add: nan_to_zero_def)

lemma comp_parts_Nil_iff:
  "comp_parts g w features = [] \<longleftrightarrow> (\<forall>(name, col, iv) \<in> set features. weight_of w name \<le> 0)"
  by (induction g w features rule: comp_parts.induct) (auto simp: Let_def)

lemma comp_parts_sum:
  assumes "\<forall>(name, col, iv) \<in> set features. length (numeric g col) = n_rows g" and "i < n_rows g"
  shows "sum_list (map (\<lambda>p. nan_to_zero (p ! i)) (comp_parts g w features)) =
         (\<Sum>(name, col, iv) \<leftarrow> filter (\<lambda>(name, col, iv). 0 < weight_of w name) features.
            nan_to_zero (compute_component (numeric g col) iv ! i) * (weight_of w name / 100))"
  using assms
proof (induction g w features rule: comp_parts.induct)
  case (1 g w)
  then show ?case by simp
next
  case (2 g w name col invert rest)
  from "2.prems" have wf: "\<forall>(name, col, iv) \<in> set rest. length (numeric g col) = n_rows g"
    and len: "i < length (compute_component (numeric g col) invert)"
    by (simp_all add: length_compute_component)
  show ?case
  proof (cases "weight_of w name \<le> 0")
    case True
    then have cp: "comp_parts g w ((name, col, invert) # rest) = comp_parts g w rest" by simp
    from True have fl: "filter (\<lambda>(name, col, iv). 0 < weight_of w name) ((name, col, invert) # rest)
        = filter (\<lambda>(name, col, iv). 0 < weight_of w name) rest" by simp
    show ?thesis unfolding cp fl by (rule "2.IH"(1) [OF refl True wf "2.prems"(2)])
  next
    case False
    then have cp: "comp_parts g w ((name, col, invert) # rest) =
        map (map_option (\<lambda>x. x * (weight_of w name / 100))) (compute_component (numeric g col) invert)
        # comp_parts g w rest" by simp
    from False have fl: "filter (\<lambda>(name, col, iv). 0 < weight_of w name) ((name, col, invert) # rest)
        = (name, col, invert) # filter (\<lambda>(name, col, iv). 0 < weight_of w name) rest" by simp
    have hd: "nan_to_zero (map (map_option (\<lambda>x. x * (weight_of w name / 100)))
                (compute_component (numeric g col) invert) ! i)
          = nan_to_zero (compute_component (numeric g col) invert ! i) * (weight_of w name / 100)"
      by (simp only: nth_map [OF len] nan_to_zero_scale)
    note ih = "2.IH"(2) [OF refl False wf "2.prems"(2)]
    show ?thesis
      unfolding cp fl by (simp only: list.map sum_list.Cons prod.case hd ih)
  qed
qed


lemma row_sums_nth: "i < n \<Longrightarrow> row_sums n parts ! i = sum_list (map (\<lambda>p. nan_to_zero (p ! i)) parts)"
  by (simp add: row_sums_def)

lemma suitability_nth:
  assumes "\<forall>(name, col, iv) \<in> set features. length (numeric g col) = n_rows g" and "i < n_rows g"
  shows "suitability g w features ! i =
         (\<Sum>(name, col, iv) \<leftarrow> filter (\<lambda>(name, col, iv). 0 < weight_of w name) features.
            nan_to_zero (compute_component (numeric g col) iv ! i) * (weight_of w name / 100))"
proof (cases "comp_parts g w features = []")
  case True
  then have "filter (\<lambda>(name, col, iv). 0 < weight_of w name) features = []"
    unfolding comp_parts_Nil_iff filter_empty_conv by fastforce
  with True assms(2) show ?thesis by (simp add: suitability_def)
next
  case False
  have "suitability g w features ! i = sum_list (map (\<lambda>p. nan_to_zero (p ! i)) (comp_parts g w features))"
    using False assms(2) by (simp add: suitability_def row_sums_nth)
  then show ?thesis by (simp only: comp_parts_sum [OF assms])
qed

lemma suitability_single:
  assumes "length (numeric g col) = n_rows g" and "i < n_rows g" and "0 \<le> weight_of w name"
  shows "suitability g w [(name, col, iv)] ! i =
         nan_to_zero (compute_component (numeric g col) iv ! i) * (weight_of w name / 100)"
proof -
  have wf: "\<forall>(name, col, iv) \<in> set [(name, col, iv)]. length (numeric g col) = n_rows g"
    using assms(1) by simp
  show ?thesis
  proof (cases "0 < weight_of w name")
    case True
    then show ?thesis unfolding suitability_nth [OF wf assms(2)] by simp
  next
    case False
    with assms(3) have "weight_of w name = 0" by simp
    then show ?thesis unfolding suitability_nth [OF wf assms(2)] by simp
  qed
qed

lemma dist_features_polarity:
  "(name, col, iv) \<in> set (dist_features cols) \<Longrightarrow> iv = (name = ''Safety'' \<or> name = ''Unemployment'')"
  unfolding dist_features_def by (simp split: if_splits; elim disjE conjE; simp)


text \<open>
  Claim C1. When every feature has weight 0 the composite is 0 in every row. Otherwise the
  composite of a row is the sum, over the features of weight above 0, of the feature's
  percentile score in that row times weight / 100 (a null score counts as 0, as pandas
  sums), with no division by the total weight; so with one feature the composite is
  linear in the weight, and doubling the weight doubles it. The score of an inverted
  feature is the percentile score of the negated column, and in the district branch the
  inverted features are exactly Safety (crime rate) and Unemployment.
\<close>

theorem suitability_weighted_sum:
  assumes "\<forall>(name, col, iv) \<in> set features. length (numeric g col) = n_rows g" and "i < n_rows g"
  shows "((\<forall>(name, col, iv) \<in> set features. weight_of w name \<le> 0) \<longrightarrow>
            suitability g w features = replicate (n_rows g) 0)
       \<and> suitability g w features ! i =
           (\<Sum>(name, col, iv) \<leftarrow> filter (\<lambda>(name, col, iv). 0 < weight_of w name) features.
              nan_to_zero (compute_component (numeric g col) iv ! i) * (weight_of w name / 100))
       \<and> (\<forall>name col iv. features = [(name, col, iv)] \<and> 0 \<le> weight_of w name \<longrightarrow>
            suitability g w features ! i =
              nan_to_zero (compute_component (numeric g col) iv ! i) * (weight_of w name / 100))
       \<and> (\<forall>name col iv w2. features = [(name, col, iv)] \<and> 0 \<le> weight_of w name
             \<and> weight_of w2 name = 2 * weight_of w name \<longrightarrow>
            suitability g w2 features ! i = 2 * suitability g w features ! i)
       \<and> (\<forall>s. compute_component s True = app_percentile_score (map (map_option uminus) s) 10 90
              \<and> compute_component s False = app_percentile_score s 10 90)
       \<and> (\<forall>(name, col, iv) \<in> set (dist_features (col_names g)).
             iv = (name = ''Safety'' \<or> name = ''Unemployment''))"
proof -
  have a: "(\<forall>(name, col, iv) \<in> set features. weight_of w name \<le> 0) \<longrightarrow>
            suitability g w features = replicate (n_rows g) 0"
    using comp_parts_Nil_iff [of g w features] by (simp add: suitability_def)
  note b = suitability_nth [OF assms, of w]
  have c1: "suitability g v features ! i =
              nan_to_zero (compute_component (numeric g col) iv ! i) * (weight_of v name / 100)"
    if "features = [(name, col, iv)]" "0 \<le> weight_of v name" for name col iv v
  proof -
    from that(1) assms(1) have "length (numeric g col) = n_rows g" by simp
    from suitability_single [OF this assms(2) that(2)] that(1) show ?thesis by simp
  qed
  have c: "\<forall>name col iv. features = [(name, col, iv)] \<and> 0 \<le> weight_of w name \<longrightarrow>
            suitability g w features ! i =
              nan_to_zero (compute_component (numeric g col) iv ! i) * (weight_of w name / 100)"
    using c1 by blast
  have d1: "suitability g w2 features ! i = 2 * suitability g w features ! i"
    if "features = [(name, col, iv)]" "0 \<le> weight_of w name" "weight_of w2 name = 2 * weight_of w name"
    for name col iv w2
  proof -
    from that have "0 \<le> weight_of w2 name" by simp
    from c1 [OF that(1) this] c1 [OF that(1,2)] that(3) show ?thesis by simp
  qed
  have d: "\<forall>name col iv w2. features = [(name, col, iv)] \<and> 0 \<le> weight_of w name
             \<and> weight_of w2 name = 2 * weight_of w name \<longrightarrow>
            suitability g w2 features ! i = 2 * suitability g w features ! i"
    using d1 by blast
  have e: "\<forall>s. compute_component s True = app_percentile_score (map (map_option uminus) s) 10 90
              \<and> compute_component s False = app_percentile_score s 10 90"
    by (simp add: compute_component_def)
  have f: "\<forall>(name, col, iv) \<in> set (dist_features (col_names g)).
             iv = (name = ''Safety'' \<or> name = ''Unemployment'')"
    using dist_features_polarity by blast
  show ?thesis
    by (rule conjI [OF a conjI [OF b conjI [OF c conjI [OF d conjI [OF e f]]]]])
qed

theorem suitability_weighted_sum_witness:
  "dist_suitability
     \<lparr> n_rows = 3, col_names = {''green_share'', ''crimes_per_1000''},
       numeric = (\<lambda>c. if c = ''green_share'' then [Some 0, Some (1 / 2), Some 1]
                       else if c = ''crimes_per_1000'' then [Some 10, None, Some 30]
                       else [None, None, None]) \<rparr>
     [''Green share'' \<mapsto> 50, ''Safety'' \<mapsto> 100] ! 0 = 100"
proof -
  let ?g = "\<lparr> n_rows = 3, col_names = {''green_share'', ''crimes_per_1000''},
       numeric = (\<lambda>c. if c = ''green_share'' then [Some 0, Some (1 / 2), Some 1]
                       else if c = ''crimes_per_1000'' then [Some 10, None, Some 30]
                       else [None, None, None]) \<rparr>"
  let ?w = "[''Green share'' \<mapsto> (50::int), ''Safety'' \<mapsto> 100]"
  let ?fs = "dist_features (col_names ?g)"
  have wf: "\<forall>(name, col, iv) \<in> set ?fs. length (numeric ?g col) = n_rows ?g"
    by code_simp
  have i: "0 < n_rows ?g" by simp
  have "suitability ?g ?w ?fs ! 0 =
           (\<Sum>(name, col, iv) \<leftarrow> filter (\<lambda>(name, col, iv). 0 < weight_of ?w name) ?fs.
              nan_to_zero (compute_component (numeric ?g col) iv ! 0) * (weight_of ?w name / 100))"
    by (rule conjunct1 [OF conjunct2 [OF suitability_weighted_sum [OF wf i]]])
  also have "\<dots> = 100" by code_simp
  finally show ?thesis by (simp only: dist_suitability_def)
qed


section \<open>The checks of required columns\<close>


lemma sublist_quoted: "sublist c (quoted c)"
  unfolding quoted_def by (rule sublist_appendI)

lemma sublist_join_comma: "c \<in> set xs \<Longrightarrow> sublist c (join_comma (map quoted xs))"
proof (induction xs rule: join_comma.induct)
  case 1
  then show ?case by simp
next
  case (2 x)
  then show ?case by (simp add: sublist_quoted)
next
  case (3 x y ys)
  show ?case
  proof (cases "c = x")
    case True
    have e: "join_comma (map quoted (x # y # ys))
             = [] @ quoted x @ ('', '' @ join_comma (map quoted (y # ys)))" by simp
    show ?thesis
      unfolding e True by (rule sublist_order.order_trans [OF sublist_quoted sublist_appendI])
  next
    case False
    with 3 have ih: "sublist c (join_comma (map quoted (y # ys)))" by simp
    have e: "join_comma (map quoted (x # y # ys))
             = (quoted x @ '', '') @ join_comma (map quoted (y # ys)) @ []" by simp
    show ?thesis
      unfolding e by (rule sublist_order.order_trans [OF ih sublist_appendI])
  qed
qed

lemma sublist_set_repr: "c \<in> set xs \<Longrightarrow> sublist c (pre @ py_set_repr xs)"
proof -
  assume "c \<in> set xs"
  then have "sublist c (join_comma (map quoted xs))" by (rule sublist_join_comma)
  also have "sublist (join_comma (map quoted xs)) ((pre @ ''{'') @ join_comma (map quoted xs) @ ''}'')"
    by (rule sublist_appendI)
  finally show ?thesis by (simp add: py_set_repr_def)
qed

text \<open>
  Claim C8, as amended. A builder whose input lacks a required column returns an error
  and no table. The parks, playgrounds and venues builders raise a \<open>ValueError\<close> whose
  message holds the name of every missing column; the mobility aggregation raises a
  \<open>ValueError\<close> with the fixed message "nei\_labels missing required mobility columns".
\<close>

theorem builders_reject_missing_columns:
  "(missing_columns [''district_id'', ''neighborhood'', ''size_sqm''] df \<noteq> [] \<longrightarrow>
      (\<exists>msg. compute_parks_labels float_str df = Inl (ValueError msg)
         \<and> (\<forall>c \<in> set (missing_columns [''district_id'', ''neighborhood'', ''size_sqm''] df).
               sublist c msg)))
   \<and> (missing_columns [''district_id'', ''neighborhood'', ''green_area_type''] df \<noteq> [] \<longrightarrow>
      (\<exists>msg. compute_playgrounds_labels float_str df = Inl (ValueError msg)
         \<and> (\<forall>c \<in> set (missing_columns [''district_id'', ''neighborhood'', ''green_area_type''] df).
               sublist c msg)))
   \<and> (missing_columns [''district_id'', ''neighborhood'', ''cuisine''] df \<noteq> [] \<longrightarrow>
      (\<exists>msg. compute_venues_features float_str df = Inl (ValueError msg)
         \<and> (\<forall>c \<in> set (missing_columns [''district_id'', ''neighborhood'', ''cuisine''] df).
               sublist c msg)))
   \<and> (missing_columns [''district_id'', ''neighborhood_id'', ''ubahn_stations'', ''bus_tram_stops''] df
         \<noteq> [] \<longrightarrow>
      aggregate_mobility_to_district df gdf_nei
        = Inl (ValueError ''nei_labels missing required mobility columns''))"
proof -
  have a: "missing_columns [''district_id'', ''neighborhood'', ''size_sqm''] df \<noteq> [] \<longrightarrow>
      (\<exists>msg. compute_parks_labels float_str df = Inl (ValueError msg)
         \<and> (\<forall>c \<in> set (missing_columns [''district_id'', ''neighborhood'', ''size_sqm''] df).
               sublist c msg))"
  proof (intro impI exI conjI ballI)
    assume "missing_columns [''district_id'', ''neighborhood'', ''size_sqm''] df \<noteq> []"
    then show "compute_parks_labels float_str df
       = Inl (ValueError (''df_parks missing columns: ''
               @ py_set_repr (missing_columns [''district_id'', ''neighborhood'', ''size_sqm''] df)))"
      by (simp add: compute_parks_labels_def Let_def)
  qed (rule sublist_set_repr)
  have b: "missing_columns [''district_id'', ''neighborhood'', ''green_area_type''] df \<noteq> [] \<longrightarrow>
      (\<exists>msg. compute_playgrounds_labels float_str df = Inl (ValueError msg)
         \<and> (\<forall>c \<in> set (missing_columns [''district_id'', ''neighborhood'', ''green_area_type''] df).
               sublist c msg))"
  proof (intro impI exI conjI ballI)
    assume "missing_columns [''district_id'', ''neighborhood'', ''green_area_type''] df \<noteq> []"
    then show "compute_playgrounds_labels float_str df
       = Inl (ValueError (''df_playgrounds missing columns: ''
               @ py_set_repr (missing_columns [''district_id'', ''neighborhood'', ''green_area_type''] df)))"
      by (simp add: compute_playgrounds_labels_def Let_def)
  qed (rule sublist_set_repr)
  have c: "missing_columns [''district_id'', ''neighborhood'', ''cuisine''] df \<noteq> [] \<longrightarrow>
      (\<exists>msg. compute_venues_features float_str df = Inl (ValueError msg)
         \<and> (\<forall>c \<in> set (missing_columns [''district_id'', ''neighborhood'', ''cuisine''] df).
               sublist c msg))"
  proof (intro impI exI conjI ballI)
    assume "missing_columns [''district_id'', ''neighborhood'', ''cuisine''] df \<noteq> []"
    then show "compute_venues_features float_str df
       = Inl (ValueError (''df_venues missing columns: ''
               @ py_set_repr (missing_columns [''district_id'', ''neighborhood'', ''cuisine''] df)))"
      by (simp add: compute_venues_features_def Let_def)
  qed (rule sublist_set_repr)
  have d: "missing_columns [''district_id'', ''neighborhood_id'', ''ubahn_stations'', ''bus_tram_stops''] df
         \<noteq> [] \<longrightarrow>
      aggregate_mobility_to_district df gdf_nei
        = Inl (ValueError ''nei_labels missing required mobility columns'')"
  proof
    assume "missing_columns [''district_id'', ''neighborhood_id'', ''ubahn_stations'', ''bus_tram_stops''] df \<noteq> []"
    then have "\<not> set [''district_id'', ''neighborhood_id'', ''ubahn_stations'', ''bus_tram_stops'']
                 \<subseteq> set (columns df)"
      unfolding missing_columns_def filter_empty_conv by blast
    then show "aggregate_mobility_to_district df gdf_nei
        = Inl (ValueError ''nei_labels missing required mobility columns'')"
      unfolding aggregate_mobility_to_district_def by (rule if_P)
  qed
  show ?thesis by (rule conjI [OF a conjI [OF b conjI [OF c d]]])
qed

theorem builders_reject_missing_columns_witness:
  "compute_parks_labels (\<lambda>x. ''1.0'') \<lparr> columns = [''district_id'', ''neighborhood''], rows = [] \<rparr>
     = Inl (ValueError (''df_parks missing columns: {'' @ [CHR 0x27] @ ''size_sqm'' @ [CHR 0x27] @ ''}''))"
proof -
  have m: "missing_columns [''district_id'', ''neighborhood'', ''size_sqm'']
             \<lparr> columns = [''district_id'', ''neighborhood''], rows = [] \<rparr> \<noteq> []"
    by code_simp
  from builders_reject_missing_columns [of "\<lparr> columns = [''district_id'', ''neighborhood''], rows = [] \<rparr>" "\<lambda>x. ''1.0''"] m
  obtain msg where "compute_parks_labels (\<lambda>x. ''1.0'') \<lparr> columns = [''district_id'', ''neighborhood''], rows = [] \<rparr>
        = Inl (ValueError msg)" by blast
  moreover have "compute_parks_labels (\<lambda>x. ''1.0'') \<lparr> columns = [''district_id'', ''neighborhood''], rows = [] \<rparr>
     = Inl (ValueError (''df_parks missing columns: {'' @ [CHR 0x27] @ ''size_sqm'' @ [CHR 0x27] @ ''}''))"
    by code_simp
  ultimately show ?thesis by simp
qed

text \<open>
  The claim as stated fails for the mobility aggregation: without the column
  \<open>bus_tram_stops\<close> its message is the fixed text, which does not hold the name of the
  missing column.
\<close>

theorem aggregate_message_counterexample:
  "aggregate_mobility_to_district
     \<lparr> columns = [''district_id'', ''neighborhood_id'', ''ubahn_stations''], rows = [] \<rparr>
     \<lparr> columns = [''district_id'', ''area_eff_km2''], rows = [] \<rparr>
     = Inl (ValueError ''nei_labels missing required mobility columns'')
   \<and> ''bus_tram_stops'' \<notin> set [''district_id'', ''neighborhood_id'', ''ubahn_stations'']
   \<and> \<not> sublist ''bus_tram_stops'' ''nei_labels missing required mobility columns''"
  by code_simp


section \<open>Rows and left merges\<close>


lemma row_get_Nil: "row_get [] c = CNull"
  by (simp add: row_get_def)

lemma row_get_Cons: "row_get ((k, v) # r) c = (if c = k then v else row_get r c)"
  by (simp add: row_get_def)

lemma row_get_notin: "c \<notin> fst ` set r \<Longrightarrow> row_get r c = CNull"
  by (simp add: row_get_def map_of_eq_None_iff [THEN iffD2])


lemma row_get_set_cell: "row_get (set_cell c v r) c' = (if c' = c then v else row_get r c')"
  by (simp add: row_get_def set_cell_def update_conv')

lemma names_set_cell: "fst ` set (set_cell c v r) = insert c (fst ` set r)"
  by (simp add: set_cell_def dom_update)

lemma row_get_map_names:
  "row_get (map (\<lambda>c. (c, f c)) cols) c = (if c \<in> set cols then f c else CNull)"
  by (induction cols) (auto simp: row_get_Nil row_get_Cons)

lemma suffixed_Nil: "suffixed [] sfx c = c"
  by (simp add: suffixed_def)


lemma snd_left_part: "map snd (left_part ov l) = map snd l"
  by (induction l) (auto simp: left_part_def)

lemma length_left_part: "length (left_part ov l) = length l"
  by (simp add: left_part_def)




lemma right_part_Nil: "right_part [] rcols r = map (\<lambda>c. (c, row_get r c)) rcols"
  by (simp add: right_part_def suffixed_Nil)

lemma null_part_Nil: "null_part [] rcols = map (\<lambda>c. (c, CNull)) rcols"
  by (simp add: null_part_def suffixed_Nil)







lemma row_get_null_part_Nil: "row_get (null_part [] rcols) c = CNull"
  by (simp add: null_part_Nil row_get_map_names)




lemma row_get_zip:
  "length vs = length ns \<Longrightarrow> distinct ns \<Longrightarrow> i < length ns \<Longrightarrow> row_get (zip ns vs) (ns ! i) = vs ! i"
  by (simp add: row_get_def map_of_zip_nth)






lemma select_columns_Inr:
  assumes "select_columns cols df = Inr out"
  shows "columns out = cols"
    and "rows out = map (\<lambda>r. map (\<lambda>c. (c, row_get r c)) cols) (rows df)"
  using assms by (auto simp: select_columns_def split: list.splits)







section \<open>Properties of the merged tables\<close>





















section \<open>Properties of the mobility labels\<close>


lemma num_float_cell: "num (float_cell x) = x"
  by (cases x) (simp_all add: float_cell_def)

lemma no_point_no_group:
  assumes "length gs = n" and "\<forall>p \<in> set pts. \<not> inside p (gs ! i)"
  shows "group_size (map snd (points_within inside (zip [0 ..< n] gs) pts)) i = None"
proof -
  have "i \<notin> set (map snd (points_within inside (zip [0 ..< n] gs) pts))"
  proof
    assume "i \<in> set (map snd (points_within inside (zip [0 ..< n] gs) pts))"
    then obtain p g where p: "p \<in> set pts" and z: "(i, g) \<in> set (zip [0 ..< n] gs)" and w: "inside p g"
      by (auto simp: points_within_def)
    from z obtain k where "k < n" "[0 ..< n] ! k = i" "gs ! k = g"
      using assms(1) by (auto simp: in_set_zip)
    then have "g = gs ! i" by simp
    with p w assms(2) show False by blast
  qed
  then show ?thesis by (simp add: group_size_def)
qed

lemma compute_area_km2_Inr:
  assumes ok: "compute_area_km2 area_of gdf = Inr g'"
    and len: "length (geometry gdf) = length (rows gdf)"
  shows "length (rows g') = length (rows gdf)"
    and "geometry g' = geometry gdf"
    and "i < length (rows gdf) \<Longrightarrow>
           \<exists>e. row_get (rows g' ! i) ''area_eff_km2'' = CFloat e \<and> 2 / 10 \<le> e"
    and "i < length (rows gdf) \<Longrightarrow> c \<noteq> ''area_km2'' \<Longrightarrow> c \<noteq> ''area_eff_km2'' \<Longrightarrow>
           row_get (rows g' ! i) c = row_get (rows gdf ! i) c"
proof -
  define filled where "filled = map (\<lambda>(r, g). if row_get r ''area_km2'' = CNull
                                  then set_cell ''area_km2'' (CFloat (area_of g)) r else r)
                     (zip (rows gdf) (geometry gdf))"
  from ok have nt: "\<forall>r \<in> set filled. \<not> is_text (row_get r ''area_km2'')"
    and g': "g' = gdf \<lparr> columns := add_names [''area_km2'', ''area_eff_km2''] (columns gdf),
                         rows := map (\<lambda>r. set_cell ''area_eff_km2''
                                            (clip_lower_cell (row_get r ''area_km2'')) r) filled \<rparr>"
    by (auto simp: compute_area_km2_def Let_def filled_def [symmetric] split: if_splits)
  have lf: "length filled = length (rows gdf)" using len by (simp add: filled_def)
  show "length (rows g') = length (rows gdf)" by (simp add: g' lf)
  show "geometry g' = geometry gdf" by (simp add: g')
  {
    assume i: "i < length (rows gdf)"
    define r where "r = rows gdf ! i"
    have fi: "filled ! i = (if row_get r ''area_km2'' = CNull
                            then set_cell ''area_km2'' (CFloat (area_of (geometry gdf ! i))) r else r)"
      using i len by (simp add: filled_def r_def)
    have ri: "rows g' ! i = set_cell ''area_eff_km2'' (clip_lower_cell (row_get (filled ! i) ''area_km2''))
                              (filled ! i)"
      using i lf by (simp add: g')
    have "filled ! i \<in> set filled" using i lf by simp
    with nt have nti: "\<not> is_text (row_get (filled ! i) ''area_km2'')" by blast
    have nn: "row_get (filled ! i) ''area_km2'' \<noteq> CNull"
      by (simp add: fi row_get_set_cell)
    from nti nn obtain a where "num (row_get (filled ! i) ''area_km2'') = Some a"
      by (cases "row_get (filled ! i) ''area_km2''") simp_all
    then show "\<exists>e. row_get (rows g' ! i) ''area_eff_km2'' = CFloat e \<and> 2 / 10 \<le> e"
      by (simp add: ri row_get_set_cell clip_lower_cell_def float_cell_def)
    assume "c \<noteq> ''area_km2''" "c \<noteq> ''area_eff_km2''"
    then show "row_get (rows g' ! i) c = row_get (rows gdf ! i) c"
      by (simp add: ri fi row_get_set_cell r_def)
  }
qed

lemma add_mobility_columns_rows:
  "length (rows (add_mobility_columns out)) = length (rows out)"
  "i < length (rows out) \<Longrightarrow>
     rows (add_mobility_columns out) ! i =
       set_cell ''mobility_label''
         (CStr (tercile_labels (percentile_score (map connectivity_density (rows out)) 10 90)
                  mobility_labels ! i))
         (set_cell ''mobility_score''
            (float_cell (percentile_score (map connectivity_density (rows out)) 10 90 ! i))
            (set_cell ''connectivity_density'' (float_cell (connectivity_density (rows out ! i)))
               (rows out ! i)))"
  by (simp_all add: add_mobility_columns_def Let_def length_percentile_score length_tercile_labels)

lemma columns_add_mobility_columns:
  "columns (add_mobility_columns out)
     = add_names [''connectivity_density'', ''mobility_score'', ''mobility_label''] (columns out)"
  by (simp add: add_mobility_columns_def Let_def)



lemma to_points_gdf_Inr: "to_points_gdf df = Inr ps \<Longrightarrow> ps = points df"
  by (auto simp: to_points_gdf_def split: if_splits option.splits)

lemma fdiv_zero: "e \<noteq> 0 \<Longrightarrow> fdiv (Some 0) (Some e) = Some 0"
  by (simp add: fdiv_def)

lemma compute_mobility_labels_rows:
  assumes ok: "compute_mobility_labels inside area_of float_str gdf_nei df_ubahn df_bus_tram = Inr out"
    and len: "length (geometry gdf_nei) = length (rows gdf_nei)"
  obtains out0 where
    "length out0 = length (rows gdf_nei)"
    "length (rows out) = length (rows gdf_nei)"
    "\<And>i. i < length (rows gdf_nei) \<Longrightarrow>
       row_get (out0 ! i) ''ubahn_stations''
         = fillna0_int (group_size (map snd (points_within inside
             (zip [0 ..< length (rows gdf_nei)] (geometry gdf_nei)) (points df_ubahn))) i)
     \<and> row_get (out0 ! i) ''bus_tram_stops''
         = fillna0_int (group_size (map snd (points_within inside
             (zip [0 ..< length (rows gdf_nei)] (geometry gdf_nei)) (points df_bus_tram))) i)
     \<and> row_get (out0 ! i) ''total_stops''
         = CInt (int_of (row_get (out0 ! i) ''ubahn_stations'')
                 + int_of (row_get (out0 ! i) ''bus_tram_stops''))
     \<and> (\<exists>e. row_get (out0 ! i) ''area_eff_km2'' = CFloat e \<and> 2 / 10 \<le> e)"
    "\<And>i. i < length (rows gdf_nei) \<Longrightarrow>
       row_get (rows out ! i) ''ubahn_stations'' = row_get (out0 ! i) ''ubahn_stations''
     \<and> row_get (rows out ! i) ''bus_tram_stops'' = row_get (out0 ! i) ''bus_tram_stops''
     \<and> row_get (rows out ! i) ''total_stops'' = row_get (out0 ! i) ''total_stops''
     \<and> row_get (rows out ! i) ''connectivity_density'' = float_cell (connectivity_density (out0 ! i))
     \<and> row_get (rows out ! i) ''mobility_score''
         = float_cell (percentile_score (map connectivity_density out0) 10 90 ! i)
     \<and> row_get (rows out ! i) ''mobility_label''
         = CStr (tercile_labels (percentile_score (map connectivity_density out0) 10 90)
                   mobility_labels ! i)"
proof -
  from ok have chk: "set [''district_id'', ''neighborhood_id'', ''neighborhood''] \<subseteq> set (columns gdf_nei)"
    by (simp add: compute_mobility_labels_def split: if_splits)
  from ok chk obtain gdf where A: "compute_area_km2 area_of gdf_nei = Inr gdf"
    by (cases "compute_area_km2 area_of gdf_nei") (simp_all add: compute_mobility_labels_def)
  from ok chk A obtain pu where U: "to_points_gdf df_ubahn = Inr pu"
    by (cases "to_points_gdf df_ubahn") (simp_all add: compute_mobility_labels_def)
  from ok chk A U obtain pb where B: "to_points_gdf df_bus_tram = Inr pb"
    by (cases "to_points_gdf df_bus_tram") (simp_all add: compute_mobility_labels_def)
  note ar = compute_area_km2_Inr [OF A len]
  define n where "n = length (rows gdf_nei)"
  have ln: "length (rows gdf) = n" and gg: "geometry gdf = geometry gdf_nei"
    using ar(1,2) by (simp_all add: n_def)
  define cu where "cu = group_size (map snd (points_within inside (zip [0 ..< n] (geometry gdf_nei)) pu))"
  define cb where "cb = group_size (map snd (points_within inside (zip [0 ..< n] (geometry gdf_nei)) pb))"
  define mk where "mk = (\<lambda>(i, r).
                          (let u = fillna0_int (cu i); b = fillna0_int (cb i)
                           in [(''district_id'', row_get r ''district_id''),
                               (''neighborhood_id'', row_get r ''neighborhood_id''),
                               (''neighborhood'', row_get r ''neighborhood''),
                               (''area_eff_km2'', row_get r ''area_eff_km2''),
                               (''ubahn_stations'', u),
                               (''bus_tram_stops'', b),
                               (''total_stops'', CInt (int_of u + int_of b))]))"
  define out0 where "out0 = map mk (zip [0 ..< n] (rows gdf))"
  define scored where "scored = add_mobility_columns
                             \<lparr> columns = [''district_id'', ''neighborhood_id'', ''neighborhood'',
                                           ''area_eff_km2'', ''ubahn_stations'', ''bus_tram_stops'',
                                           ''total_stops''],
                               rows = out0 \<rparr>"
  define named where "named = scored \<lparr> columns := add_names [''neighborhood_canon''] (columns scored),
                                   rows := map (\<lambda>r. set_cell ''neighborhood_canon''
                                                  (CStr (canon_cell float_str (row_get r ''neighborhood''))) r)
                                             (rows scored) \<rparr>"
  have S: "select_columns mobility_columns named = Inr out"
    using ok chk unfolding named_def scored_def out0_def mk_def cu_def cb_def
    by (simp add: compute_mobility_labels_def A U B Let_def ln gg)
  have l0: "length out0 = n" by (simp add: out0_def ln)
  have o0: "out0 ! i = mk (i, rows gdf ! i)" if "i < n" for i
    using that by (simp add: out0_def ln)
  note ms = add_mobility_columns_rows [where out = "\<lparr> columns = [''district_id'', ''neighborhood_id'',
               ''neighborhood'', ''area_eff_km2'', ''ubahn_stations'', ''bus_tram_stops'',
               ''total_stops''], rows = out0 \<rparr>", folded scored_def, simplified]
  have ls: "length (rows scored) = n" using ms(1) l0 by simp
  have lo: "length (rows out) = n"
    by (simp add: select_columns_Inr(2) [OF S] named_def ls)
  have rn: "rows named ! i = set_cell ''neighborhood_canon''
               (CStr (canon_cell float_str (row_get (rows scored ! i) ''neighborhood''))) (rows scored ! i)"
    if "i < n" for i
    using that ls by (simp add: named_def)
  have ro: "row_get (rows out ! i) c = row_get (rows named ! i) c"
    if "i < n" "c \<in> set mobility_columns" for i c
    using that ls by (simp add: select_columns_Inr(2) [OF S] named_def row_get_map_names)
  have p1: "row_get (out0 ! i) ''ubahn_stations''
         = fillna0_int (group_size (map snd (points_within inside
             (zip [0 ..< length (rows gdf_nei)] (geometry gdf_nei)) (points df_ubahn))) i)
     \<and> row_get (out0 ! i) ''bus_tram_stops''
         = fillna0_int (group_size (map snd (points_within inside
             (zip [0 ..< length (rows gdf_nei)] (geometry gdf_nei)) (points df_bus_tram))) i)
     \<and> row_get (out0 ! i) ''total_stops''
         = CInt (int_of (row_get (out0 ! i) ''ubahn_stations'')
                 + int_of (row_get (out0 ! i) ''bus_tram_stops''))
     \<and> (\<exists>e. row_get (out0 ! i) ''area_eff_km2'' = CFloat e \<and> 2 / 10 \<le> e)"
    if "i < length (rows gdf_nei)" for i
  proof -
    from that have i: "i < n" by (simp add: n_def)
    from ar(3) [OF that] obtain e where e: "row_get (rows gdf ! i) ''area_eff_km2'' = CFloat e" "2 / 10 \<le> e"
      by blast
    show ?thesis
      using e
      by (simp add: o0 [OF i] mk_def Let_def row_get_Cons cu_def cb_def
            to_points_gdf_Inr [OF U] to_points_gdf_Inr [OF B] n_def)
  qed
  have p2: "row_get (rows out ! i) ''ubahn_stations'' = row_get (out0 ! i) ''ubahn_stations''
     \<and> row_get (rows out ! i) ''bus_tram_stops'' = row_get (out0 ! i) ''bus_tram_stops''
     \<and> row_get (rows out ! i) ''total_stops'' = row_get (out0 ! i) ''total_stops''
     \<and> row_get (rows out ! i) ''connectivity_density'' = float_cell (connectivity_density (out0 ! i))
     \<and> row_get (rows out ! i) ''mobility_score''
         = float_cell (percentile_score (map connectivity_density out0) 10 90 ! i)
     \<and> row_get (rows out ! i) ''mobility_label''
         = CStr (tercile_labels (percentile_score (map connectivity_density out0) 10 90)
                   mobility_labels ! i)"
    if "i < length (rows gdf_nei)" for i
  proof -
    from that have i: "i < n" by (simp add: n_def)
    then have i0: "i < length out0" by (simp add: l0)
    show ?thesis
      by (simp add: ro [OF i] rn [OF i] ms(2) [OF i0] mobility_columns_def row_get_set_cell)
  qed
  show ?thesis
    by (rule that [of out0]) (use l0 lo p1 p2 in \<open>simp_all add: n_def\<close>)
qed



lemma group_keys_set: "set (group_keys key rs) = key ` set rs"
  by (simp add: group_keys_def)

lemma parks_rows_have_records:
  assumes "compute_parks_labels float_str df = Inr po" and "r \<in> set (rows po)"
  shows "\<exists>r0 \<in> set (rows df).
           row_get r ''district_id'' = row_get r0 ''district_id''
         \<and> row_get r ''neighborhood_canon'' = CStr (canon_cell float_str (row_get r0 ''neighborhood''))"
proof -
  define f where "f = (\<lambda>r. set_cell ''green_area_km2''
                                        (float_cell (map_option (\<lambda>x. x / 10 ^ 6)
                                                       (num (row_get r ''size_sqm''))))
                                        (set_cell ''neighborhood_canon''
                                           (CStr (canon_cell float_str (row_get r ''neighborhood''))) r))"
  define key where "key = (\<lambda>r. (row_get r ''district_id'', row_get r ''neighborhood_canon''))"
  from assms(1) have "rows po = map (\<lambda>(d, k).
                              [(''district_id'', d), (''neighborhood_canon'', k),
                               (''green_area_km2'',
                                 CFloat (sum_real (col_cells (members key (d, k) (map f (rows df)))
                                                    ''green_area_km2'')))])
                            (group_keys key (map f (rows df)))"
    by (auto simp: compute_parks_labels_def Let_def f_def key_def split: if_splits)
  with assms(2) obtain d k where r: "r = [(''district_id'', d), (''neighborhood_canon'', k),
                               (''green_area_km2'',
                                 CFloat (sum_real (col_cells (members key (d, k) (map f (rows df)))
                                                    ''green_area_km2'')))]"
    and dk: "(d, k) \<in> set (group_keys key (map f (rows df)))"
    by auto
  from dk obtain r0 where r0: "r0 \<in> set (rows df)" and "(d, k) = key (f r0)"
    by (auto simp: group_keys_set)
  then have "d = row_get r0 ''district_id''"
    and "k = CStr (canon_cell float_str (row_get r0 ''neighborhood''))"
    by (simp_all add: key_def f_def row_get_set_cell)
  with r r0 show ?thesis by (auto simp: row_get_Cons)
qed

lemma playgrounds_rows_have_records:
  assumes "compute_playgrounds_labels float_str df = Inr po" and "r \<in> set (rows po)"
  shows "\<exists>r0 \<in> set (rows df).
           row_get r ''district_id'' = row_get r0 ''district_id''
         \<and> row_get r ''neighborhood_canon'' = CStr (canon_cell float_str (row_get r0 ''neighborhood''))"
proof -
  define f where "f = (\<lambda>r. set_cell ''neighborhood_canon''
                                     (CStr (canon_cell float_str (row_get r ''neighborhood''))) r)"
  define key where "key = (\<lambda>r. (row_get r ''district_id'', row_get r ''neighborhood_canon''))"
  define kept where "kept = filter (\<lambda>r. row_get r ''district_id'' \<noteq> CNull)
                              (filter (is_playground float_str) (map f (rows df)))"
  from assms(1) have "rows po = map (\<lambda>(d, k).
                              [(''district_id'', d), (''neighborhood_canon'', k),
                               (''n_playgrounds'', CInt (int (length (members key (d, k) kept))))])
                            (group_keys key kept)"
    by (auto simp: compute_playgrounds_labels_def Let_def f_def key_def kept_def split: if_splits)
  with assms(2) obtain d k where r: "r = [(''district_id'', d), (''neighborhood_canon'', k),
                               (''n_playgrounds'', CInt (int (length (members key (d, k) kept))))]"
    and dk: "(d, k) \<in> set (group_keys key kept)"
    by auto
  from dk obtain r0 where r0: "r0 \<in> set (rows df)" and "(d, k) = key (f r0)"
    by (auto simp: group_keys_set kept_def)
  then have "d = row_get r0 ''district_id''"
    and "k = CStr (canon_cell float_str (row_get r0 ''neighborhood''))"
    by (simp_all add: key_def f_def row_get_set_cell)
  with r r0 show ?thesis by (auto simp: row_get_Cons)
qed

lemma venues_rows_have_records:
  assumes "compute_venues_features float_str df = Inr po" and "r \<in> set (rows po)"
  shows "\<exists>r0 \<in> set (rows df).
           row_get r ''district_id'' = row_get r0 ''district_id''
         \<and> row_get r ''neighborhood_canon'' = CStr (canon_cell float_str (row_get r0 ''neighborhood''))"
proof -
  define f where "f = (\<lambda>r. set_cell ''neighborhood_canon''
                                     (CStr (canon_cell float_str (row_get r ''neighborhood''))) r)"
  define key where "key = (\<lambda>r. (row_get r ''district_id'', row_get r ''neighborhood_canon''))"
  from assms(1) have "rows po = map (\<lambda>(d, k).
                              [(''district_id'', d), (''neighborhood_canon'', k),
                               (''n_venues'', CInt (int (length (members key (d, k) (map f (rows df)))))),
                               (''n_cuisine_types'',
                                 CInt (int (card (\<Union>r \<in> set (members key (d, k) (map f (rows df))).
                                                    nationals_set (cuisine_arg (row_get r ''cuisine''))))))])
                            (group_keys key (map f (rows df)))"
    by (auto simp: compute_venues_features_def Let_def f_def key_def split: if_splits)
  with assms(2) obtain d k where r: "row_get r ''district_id'' = d" "row_get r ''neighborhood_canon'' = k"
    and dk: "(d, k) \<in> set (group_keys key (map f (rows df)))"
    by (auto simp: row_get_Cons)
  from dk obtain r0 where r0: "r0 \<in> set (rows df)" and "(d, k) = key (f r0)"
    by (auto simp: group_keys_set)
  then have "d = row_get r0 ''district_id''"
    and "k = CStr (canon_cell float_str (row_get r0 ''neighborhood''))"
    by (simp_all add: key_def f_def row_get_set_cell)
  with r r0 show ?thesis by auto
qed


subsection \<open>Polygons without transit points\<close>


text \<open>
  Claim C10. In \<open>compute_mobility_labels\<close> a polygon that contains no U-Bahn point and no
  bus/tram point keeps its row and receives the integer counts \<open>ubahn_stations = 0\<close>,
  \<open>bus_tram_stops = 0\<close>, \<open>total_stops = 0\<close> and \<open>connectivity_density = 0\<close>; the score
  column is \<open>percentile_score\<close> of the whole density column (the zero included) and the label
  column is \<open>tercile_labels\<close> of the whole score column, so the polygon has a score between 0
  and 100.  The parks, playgrounds and venues builders, in contrast, return rows only for key
  pairs that occur in their input records, so a neighbourhood without records has no row there
  (and is filled with nulls by the left joins of the merged tables).
\<close>

theorem unserved_polygon_zero_not_null:
  assumes ok: "compute_mobility_labels inside area_of float_str gdf_nei df_ubahn df_bus_tram = Inr out"
    and len: "length (geometry gdf_nei) = length (rows gdf_nei)"
    and i: "i < length (rows gdf_nei)"
    and nu: "\<forall>p \<in> set (points df_ubahn). \<not> inside p (geometry gdf_nei ! i)"
    and nb: "\<forall>p \<in> set (points df_bus_tram). \<not> inside p (geometry gdf_nei ! i)"
  shows "length (rows out) = length (rows gdf_nei)
    \<and> row_get (rows out ! i) ''ubahn_stations'' = CInt 0
    \<and> row_get (rows out ! i) ''bus_tram_stops'' = CInt 0
    \<and> row_get (rows out ! i) ''total_stops'' = CInt 0
    \<and> row_get (rows out ! i) ''connectivity_density'' = CFloat 0
    \<and> col_cells (rows out) ''mobility_score''
        = map float_cell (percentile_score (map num (col_cells (rows out) ''connectivity_density'')) 10 90)
    \<and> col_cells (rows out) ''mobility_label''
        = map CStr (tercile_labels (map num (col_cells (rows out) ''mobility_score'')) mobility_labels)
    \<and> (\<exists>s. row_get (rows out ! i) ''mobility_score'' = CFloat s \<and> 0 \<le> s \<and> s \<le> 100)
    \<and> (\<forall>po r. compute_parks_labels float_str df_parks = Inr po \<and> r \<in> set (rows po) \<longrightarrow>
          (\<exists>r0 \<in> set (rows df_parks).
             row_get r ''district_id'' = row_get r0 ''district_id''
           \<and> row_get r ''neighborhood_canon''
               = CStr (canon_cell float_str (row_get r0 ''neighborhood''))))
    \<and> (\<forall>po r. compute_playgrounds_labels float_str df_plays = Inr po \<and> r \<in> set (rows po) \<longrightarrow>
          (\<exists>r0 \<in> set (rows df_plays).
             row_get r ''district_id'' = row_get r0 ''district_id''
           \<and> row_get r ''neighborhood_canon''
               = CStr (canon_cell float_str (row_get r0 ''neighborhood''))))
    \<and> (\<forall>po r. compute_venues_features float_str df_venues = Inr po \<and> r \<in> set (rows po) \<longrightarrow>
          (\<exists>r0 \<in> set (rows df_venues).
             row_get r ''district_id'' = row_get r0 ''district_id''
           \<and> row_get r ''neighborhood_canon''
               = CStr (canon_cell float_str (row_get r0 ''neighborhood''))))"
proof -
  from compute_mobility_labels_rows [OF ok len] obtain out0 where
    l0: "length out0 = length (rows gdf_nei)" and
    lo: "length (rows out) = length (rows gdf_nei)" and
    p1: "\<And>i. i < length (rows gdf_nei) \<Longrightarrow>
       row_get (out0 ! i) ''ubahn_stations''
         = fillna0_int (group_size (map snd (points_within inside
             (zip [0 ..< length (rows gdf_nei)] (geometry gdf_nei)) (points df_ubahn))) i)
     \<and> row_get (out0 ! i) ''bus_tram_stops''
         = fillna0_int (group_size (map snd (points_within inside
             (zip [0 ..< length (rows gdf_nei)] (geometry gdf_nei)) (points df_bus_tram))) i)
     \<and> row_get (out0 ! i) ''total_stops''
         = CInt (int_of (row_get (out0 ! i) ''ubahn_stations'')
                 + int_of (row_get (out0 ! i) ''bus_tram_stops''))
     \<and> (\<exists>e. row_get (out0 ! i) ''area_eff_km2'' = CFloat e \<and> 2 / 10 \<le> e)" and
    p2: "\<And>i. i < length (rows gdf_nei) \<Longrightarrow>
       row_get (rows out ! i) ''ubahn_stations'' = row_get (out0 ! i) ''ubahn_stations''
     \<and> row_get (rows out ! i) ''bus_tram_stops'' = row_get (out0 ! i) ''bus_tram_stops''
     \<and> row_get (rows out ! i) ''total_stops'' = row_get (out0 ! i) ''total_stops''
     \<and> row_get (rows out ! i) ''connectivity_density'' = float_cell (connectivity_density (out0 ! i))
     \<and> row_get (rows out ! i) ''mobility_score''
         = float_cell (percentile_score (map connectivity_density out0) 10 90 ! i)
     \<and> row_get (rows out ! i) ''mobility_label''
         = CStr (tercile_labels (percentile_score (map connectivity_density out0) 10 90)
                   mobility_labels ! i)"
    by blast
  define D where "D = map connectivity_density out0"
  have u0: "row_get (out0 ! i) ''ubahn_stations'' = CInt 0"
    using p1 [OF i] no_point_no_group [where inside = inside and i = i, OF len nu] by (simp add: fillna0_int_def)
  have b0: "row_get (out0 ! i) ''bus_tram_stops'' = CInt 0"
    using p1 [OF i] no_point_no_group [where inside = inside and i = i, OF len nb] by (simp add: fillna0_int_def)
  have t0: "row_get (out0 ! i) ''total_stops'' = CInt 0"
    using p1 [OF i] u0 b0 by simp
  from p1 [OF i] obtain e where e: "row_get (out0 ! i) ''area_eff_km2'' = CFloat e" "2 / 10 \<le> e"
    by blast
  then have "e \<noteq> 0" by simp
  then have d0: "connectivity_density (out0 ! i) = Some 0"
    by (simp add: connectivity_density_def u0 b0 e fdiv_zero)
  have Di: "D ! i = Some 0" using i l0 d0 by (simp add: D_def)
  have cd: "map num (col_cells (rows out) ''connectivity_density'') = D"
    using lo l0 p2 by (intro nth_equalityI) (simp_all add: col_cells_def D_def num_float_cell)
  have cs: "col_cells (rows out) ''mobility_score'' = map float_cell (percentile_score D 10 90)"
    using lo l0 p2
    by (intro nth_equalityI) (simp_all add: col_cells_def D_def length_percentile_score)
  have ns: "map num (col_cells (rows out) ''mobility_score'') = percentile_score D 10 90"
    unfolding cs by (simp add: comp_def num_float_cell)
  have cl: "col_cells (rows out) ''mobility_label''
        = map CStr (tercile_labels (percentile_score D 10 90) mobility_labels)"
    using lo l0 p2
    by (intro nth_equalityI)
       (simp_all add: col_cells_def D_def length_percentile_score length_tercile_labels)
  have iD: "i < length D" using i l0 by (simp add: D_def)
  then have "\<exists>x \<in> set D. x \<noteq> None" using Di by (metis nth_mem option.distinct(1))
  from percentile_score_nth [OF iD this, of 10 90] Di
  obtain s where s: "percentile_score D 10 90 ! i = Some s"
    and sv: "s = clip ((0 - percentile_sorted (sort (non_null D)) 10)
                                / max (percentile_sorted (sort (non_null D)) 90
                                       - percentile_sorted (sort (non_null D)) 10) (1 / 10 ^ 9)) 0 1 * 100"
    by simp
  have sb: "0 \<le> s \<and> s \<le> 100" unfolding sv by (rule clip_bounds)
  have a: "length (rows out) = length (rows gdf_nei)" by (rule lo)
  have b: "row_get (rows out ! i) ''ubahn_stations'' = CInt 0" using p2 [OF i] u0 by simp
  have c: "row_get (rows out ! i) ''bus_tram_stops'' = CInt 0" using p2 [OF i] b0 by simp
  have d: "row_get (rows out ! i) ''total_stops'' = CInt 0" using p2 [OF i] t0 by simp
  have f: "row_get (rows out ! i) ''connectivity_density'' = CFloat 0"
    using p2 [OF i] d0 by (simp add: float_cell_def)
  have g: "col_cells (rows out) ''mobility_score''
        = map float_cell (percentile_score (map num (col_cells (rows out) ''connectivity_density'')) 10 90)"
    by (simp only: cd cs)
  have h: "col_cells (rows out) ''mobility_label''
        = map CStr (tercile_labels (map num (col_cells (rows out) ''mobility_score'')) mobility_labels)"
    by (simp only: ns cl)
  have j: "\<exists>s. row_get (rows out ! i) ''mobility_score'' = CFloat s \<and> 0 \<le> s \<and> s \<le> 100"
    using p2 [OF i] s sb by (auto simp: D_def float_cell_def)
  have k: "\<forall>po r. compute_parks_labels float_str df_parks = Inr po \<and> r \<in> set (rows po) \<longrightarrow>
          (\<exists>r0 \<in> set (rows df_parks).
             row_get r ''district_id'' = row_get r0 ''district_id''
           \<and> row_get r ''neighborhood_canon''
               = CStr (canon_cell float_str (row_get r0 ''neighborhood'')))"
    using parks_rows_have_records by blast
  have l: "\<forall>po r. compute_playgrounds_labels float_str df_plays = Inr po \<and> r \<in> set (rows po) \<longrightarrow>
          (\<exists>r0 \<in> set (rows df_plays).
             row_get r ''district_id'' = row_get r0 ''district_id''
           \<and> row_get r ''neighborhood_canon''
               = CStr (canon_cell float_str (row_get r0 ''neighborhood'')))"
    using playgrounds_rows_have_records by blast
  have m: "\<forall>po r. compute_venues_features float_str df_venues = Inr po \<and> r \<in> set (rows po) \<longrightarrow>
          (\<exists>r0 \<in> set (rows df_venues).
             row_get r ''district_id'' = row_get r0 ''district_id''
           \<and> row_get r ''neighborhood_canon''
               = CStr (canon_cell float_str (row_get r0 ''neighborhood'')))"
    using venues_rows_have_records by blast
  show ?thesis
    by (rule conjI [OF a conjI [OF b conjI [OF c conjI [OF d conjI [OF f conjI [OF g
          conjI [OF h conjI [OF j conjI [OF k conjI [OF l m]]]]]]]]]])
qed

theorem unserved_polygon_zero_not_null_witness:
  "row_get (rows ex_mobility ! 1) ''ubahn_stations'' = CInt 0
   \<and> row_get (rows ex_mobility ! 1) ''total_stops'' = CInt 0
   \<and> row_get (rows ex_mobility ! 1) ''connectivity_density'' = CFloat 0
   \<and> row_get (rows ex_mobility ! 1) ''mobility_score'' = CFloat 0"
proof -
  have ok: "compute_mobility_labels (\<lambda>p g. p = g) (\<lambda>g. 1) (\<lambda>x. ''1.0'') ex_geo ex_ubahn ex_bus
              = Inr ex_mobility"
  proof -
    have "\<not> isl (compute_mobility_labels (\<lambda>p g. p = g) (\<lambda>g. 1) (\<lambda>x. ''1.0'') ex_geo ex_ubahn ex_bus)"
      by code_simp
    then show ?thesis unfolding ex_mobility_def by simp
  qed
  have len: "length (geometry ex_geo) = length (rows ex_geo)" by code_simp
  have i: "1 < length (rows ex_geo)" by code_simp
  have nu: "\<forall>p \<in> set (points ex_ubahn). \<not> (\<lambda>p g. p = g) p (geometry ex_geo ! 1)" by code_simp
  have nb: "\<forall>p \<in> set (points ex_bus). \<not> (\<lambda>p g. p = g) p (geometry ex_geo ! 1)" by code_simp
  note t = unserved_polygon_zero_not_null [where inside = "\<lambda>p g. p = g", OF ok len i nu nb]
  have v: "row_get (rows ex_mobility ! 1) ''mobility_score'' = CFloat 0" by code_simp
  from t have "row_get (rows ex_mobility ! 1) ''ubahn_stations'' = CInt 0"
    and "row_get (rows ex_mobility ! 1) ''total_stops'' = CInt 0"
    and "row_get (rows ex_mobility ! 1) ''connectivity_density'' = CFloat 0" by blast+
  with v show ?thesis by simp
qed

end
